theory Spec2Isabelle
  imports Complex_Main "HOL-Library.Multiset"
begin

section \<open>Data model (types.ts)\<close>

text \<open>
  JavaScript numbers are modelled as reals: rounding, NaN and the infinities are not
  modelled, so an equation between numbers below is one of exact arithmetic, which the
  program's IEEE doubles follow up to the rounding of each operation; no property that
  stands or falls with that rounding is drawn from this model. The zIndex values, which
  the program only ever builds from integer constants with \<open>Math.max\<close> and \<open>+ 1\<close>, are
  integers. Identifiers are strings; a string is a list of code units in the range 0 to
  255.
\<close>

record Point =
  pt_x :: real
  pt_y :: real

record CanvasObject =
  obj_id :: string
  obj_src :: string
  obj_x :: real
  obj_y :: real
  obj_width :: real
  obj_height :: real
  obj_rotation :: real
  obj_zIndex :: int
  isAiResult :: "bool option"

text \<open>\<open>FrameObject extends CanvasObject\<close>: a record extension, so that every field
  selector of an image also reads a frame.\<close>

record FrameObject = CanvasObject +
  aspectRatio :: real

record PromptNodeObject =
  node_id :: string
  attachedToId :: string
  node_x :: real
  node_y :: real
  node_width :: real
  node_height :: real
  node_zIndex :: int
  node_prompt :: string

record CanvasState =
  canvas_id :: string
  canvas_name :: string
  objects :: "CanvasObject list"
  frames :: "FrameObject list"
  promptNodes :: "PromptNodeObject list"

section \<open>Utility functions (App.tsx)\<close>

definition startsWith :: "string \<Rightarrow> string \<Rightarrow> bool" where
  "startsWith s pre = (take (length pre) s = pre)"

definition PROMPT_NODE_WIDTH :: real where
  "PROMPT_NODE_WIDTH = 48"

definition PROMPT_NODE_HEIGHT :: real where
  "PROMPT_NODE_HEIGHT = 180"

definition Z_INDEX_BASE_IMAGE :: int where
  "Z_INDEX_BASE_IMAGE = 0"

definition Z_INDEX_BASE_FRAME :: int where
  "Z_INDEX_BASE_FRAME = 10000"

definition Z_INDEX_BASE_PROMPT_NODE :: int where
  "Z_INDEX_BASE_PROMPT_NODE = 20000"

text \<open>\<open>xs.length > 0 ? Math.max(...xs) : dflt\<close>, the shape of every z-index maximum
  in the program.\<close>

definition maxOr :: "int \<Rightarrow> int list \<Rightarrow> int" where
  "maxOr dflt xs = (case xs of [] \<Rightarrow> dflt | z # zs \<Rightarrow> fold max zs z)"

text \<open>\<open>Math.atan2\<close> (signed zeros apart).\<close>

definition atan2 :: "real \<Rightarrow> real \<Rightarrow> real" where
  "atan2 y x =
     (if x > 0 then arctan (y / x)
      else if x < 0 then (if y \<ge> 0 then arctan (y / x) + pi else arctan (y / x) - pi)
      else if y > 0 then pi / 2
      else if y < 0 then - (pi / 2)
      else 0)"

section \<open>Application state (the React state of App)\<close>

datatype InteractionType = Move | ResizeBr | Rotate | Pan

text \<open>\<open>interactionRef.current\<close>. The \<open>startPositions\<close> object is a partial map from
  ids to positions.\<close>

record Interaction =
  itype :: "InteractionType option"
  targetId :: string
  startX :: real
  startY :: real
  startWidth :: real
  startHeight :: real
  startRotation :: real
  startAspectRatio :: real
  centerCanvasX :: real
  centerCanvasY :: real
  movedObjectIds :: "string list"
  startPositions :: "string \<rightharpoonup> Point"

datatype Provider = SD | NB

record Job =
  job_id :: string
  job_provider :: Provider

text \<open>\<open>viewportRef.current.getBoundingClientRect()\<close>.\<close>

record DOMRect =
  dom_left :: real
  dom_top :: real
  dom_width :: real
  dom_height :: real

record MouseEvent =
  clientX :: real
  clientY :: real
  movementX :: real
  movementY :: real
  shiftKey :: bool

record AppState =
  canvases :: "CanvasState list"
  activeCanvasId :: "string option"
  selectedObjectIds :: "string list"
  zoom :: real
  pan_x :: real
  pan_y :: real
  viewport :: "DOMRect option"
  interaction :: Interaction
  listening :: bool
  activeCombinedJobs :: "Job list"
  apiConfigs :: "string \<rightharpoonup> string"
  prompt :: string
  textGenPrompt :: string
  error :: "string option"
  apiCallCounts_sd :: nat
  apiCallCounts_nb :: nat

definition activeCanvas :: "AppState \<Rightarrow> CanvasState option" where
  "activeCanvas s = find (\<lambda>c. Some (canvas_id c) = activeCanvasId s) (canvases s)"

text \<open>\<open>setCanvases(prev => prev.map(c => c.id === activeCanvasId ? f(c) : c))\<close>.\<close>

definition setActiveCanvas :: "(CanvasState \<Rightarrow> CanvasState) \<Rightarrow> AppState \<Rightarrow> AppState" where
  "setActiveCanvas f s =
     s\<lparr>canvases := map (\<lambda>c. if Some (canvas_id c) = activeCanvasId s then f c else c) (canvases s)\<rparr>"

text \<open>\<open>!activeCanvasId\<close>: null and the empty string are falsy.\<close>

definition noActiveCanvasId :: "AppState \<Rightarrow> bool" where
  "noActiveCanvasId s = (activeCanvasId s = None \<or> activeCanvasId s = Some [])"

definition getCanvasCoordinates :: "AppState \<Rightarrow> real \<Rightarrow> real \<Rightarrow> Point" where
  "getCanvasCoordinates s screenX screenY =
     (case viewport s of
        None \<Rightarrow> \<lparr>pt_x = 0, pt_y = 0\<rparr>
      | Some rect \<Rightarrow>
          \<lparr>pt_x = (screenX - dom_left rect - pan_x s) / zoom s,
           pt_y = (screenY - dom_top rect - pan_y s) / zoom s\<rparr>)"

section \<open>Deleting objects\<close>

definition handleDeleteFrame :: "AppState \<Rightarrow> string \<Rightarrow> AppState" where
  "handleDeleteFrame s idToDelete =
     (case activeCanvas s of
        None \<Rightarrow> s
      | Some ac \<Rightarrow>
          (setActiveCanvas
             (\<lambda>c. c\<lparr>frames := filter (\<lambda>f. obj_id f \<noteq> idToDelete) (frames c),
                    promptNodes := filter (\<lambda>p. attachedToId p \<noteq> idToDelete) (promptNodes c)\<rparr>) s)
          \<lparr>selectedObjectIds := filter (\<lambda>i. i \<noteq> idToDelete) (selectedObjectIds s)\<rparr>)"

definition handleDeleteSingleObject :: "AppState \<Rightarrow> string \<Rightarrow> AppState" where
  "handleDeleteSingleObject s idToDelete =
     (if noActiveCanvasId s then s
      else
        (setActiveCanvas
           (\<lambda>c. c\<lparr>objects := filter (\<lambda>ob. obj_id ob \<noteq> idToDelete) (objects c),
                  promptNodes := filter (\<lambda>p. attachedToId p \<noteq> idToDelete) (promptNodes c)\<rparr>) s)
        \<lparr>selectedObjectIds := filter (\<lambda>i. i \<noteq> idToDelete) (selectedObjectIds s)\<rparr>)"


definition handleClearCanvas :: "AppState \<Rightarrow> AppState" where
  "handleClearCanvas s =
     (if noActiveCanvasId s then s
      else
        (setActiveCanvas (\<lambda>c. c\<lparr>objects := [], frames := [], promptNodes := []\<rparr>) s)
        \<lparr>selectedObjectIds := []\<rparr>)"

text \<open>Referential integrity of attachment: every prompt node's \<open>attachedToId\<close> is the id
  of an image or of a frame of the same canvas.\<close>

definition attachmentsResolve :: "CanvasState \<Rightarrow> bool" where
  "attachmentsResolve c =
     list_all (\<lambda>p. attachedToId p \<in> set (map obj_id (objects c) @ map obj_id (frames c)))
       (promptNodes c)"

section \<open>Prompt nodes\<close>

text \<open>\<open>handleAddPromptNode\<close>; \<open>uuid\<close> is the result of \<open>crypto.randomUUID()\<close>. The parent is
  an image or a frame, read through the fields they share.\<close>

definition newPromptNode :: "string \<Rightarrow> int \<Rightarrow> CanvasObject \<Rightarrow> PromptNodeObject" where
  "newPromptNode uuid newZIndex parent =
     \<lparr>node_id = ''prompt-node-'' @ uuid,
      attachedToId = obj_id parent,
      node_x = obj_x parent - PROMPT_NODE_WIDTH - 8,
      node_y = obj_y parent + obj_height parent / 2 - PROMPT_NODE_HEIGHT / 2,
      node_width = PROMPT_NODE_WIDTH,
      node_height = PROMPT_NODE_HEIGHT,
      node_zIndex = newZIndex,
      node_prompt = []\<rparr>"

definition handleAddPromptNode :: "AppState \<Rightarrow> string \<Rightarrow> AppState" where
  "handleAddPromptNode s uuid =
     (case activeCanvas s of
        None \<Rightarrow> s
      | Some ac \<Rightarrow>
          if length (selectedObjectIds s) \<noteq> 1 then s
          else
            let parentId = hd (selectedObjectIds s);
                isFrame = startsWith parentId ''format-frame-'';
                parent = (if isFrame
                          then map_option CanvasObject.truncate
                                 (find (\<lambda>f. obj_id f = parentId) (frames ac))
                          else find (\<lambda>ob. obj_id ob = parentId) (objects ac))
            in case parent of
                 None \<Rightarrow> s\<lparr>error := Some ''Could not find parent object.''\<rparr>
               | Some par \<Rightarrow>
                   if list_ex (\<lambda>p. attachedToId p = parentId) (promptNodes ac)
                   then s\<lparr>error := Some ''This object already has a prompt node.''\<rparr>
                   else
                     let newZIndex =
                           (if length (promptNodes ac) > 0
                            then maxOr 0 (map node_zIndex (promptNodes ac)) + 1
                            else Z_INDEX_BASE_PROMPT_NODE)
                     in setActiveCanvas
                          (\<lambda>c. c\<lparr>promptNodes := promptNodes c @ [newPromptNode uuid newZIndex par]\<rparr>) s)"

section \<open>Pointer interaction\<close>

text \<open>The target of a pointer-down: \<open>CanvasObject | FrameObject | PromptNodeObject\<close>.\<close>

datatype Target = TImage CanvasObject | TFrame FrameObject | TNode PromptNodeObject

fun target_id :: "Target \<Rightarrow> string" where
  "target_id (TImage ob) = obj_id ob"
| "target_id (TFrame f) = obj_id f"
| "target_id (TNode p) = node_id p"

fun target_x :: "Target \<Rightarrow> real" where
  "target_x (TImage ob) = obj_x ob"
| "target_x (TFrame f) = obj_x f"
| "target_x (TNode p) = node_x p"

fun target_y :: "Target \<Rightarrow> real" where
  "target_y (TImage ob) = obj_y ob"
| "target_y (TFrame f) = obj_y f"
| "target_y (TNode p) = node_y p"

fun target_width :: "Target \<Rightarrow> real" where
  "target_width (TImage ob) = obj_width ob"
| "target_width (TFrame f) = obj_width f"
| "target_width (TNode p) = node_width p"

fun target_height :: "Target \<Rightarrow> real" where
  "target_height (TImage ob) = obj_height ob"
| "target_height (TFrame f) = obj_height f"
| "target_height (TNode p) = node_height p"

text \<open>\<open>(targetObj as CanvasObject).rotation || 0\<close>: a prompt node has no such field.\<close>

fun target_rotation_or_0 :: "Target \<Rightarrow> real" where
  "target_rotation_or_0 (TImage ob) = obj_rotation ob"
| "target_rotation_or_0 (TFrame f) = obj_rotation f"
| "target_rotation_or_0 (TNode p) = 0"

text \<open>\<open>(targetObj as FrameObject).aspectRatio || 1\<close>: only a frame has the field, and
  zero is falsy.\<close>

fun target_aspectRatio_or_1 :: "Target \<Rightarrow> real" where
  "target_aspectRatio_or_1 (TImage ob) = 1"
| "target_aspectRatio_or_1 (TFrame f) = (if aspectRatio f = 0 then 1 else aspectRatio f)"
| "target_aspectRatio_or_1 (TNode p) = 1"

definition snapshot :: "Target \<Rightarrow> string \<times> Point" where
  "snapshot t = (target_id t, \<lparr>pt_x = target_x t, pt_y = target_y t\<rparr>)"

text \<open>\<open>Object.fromEntries\<close>: of two entries with one key the later one stays.\<close>

definition fromEntries :: "(string \<times> Point) list \<Rightarrow> (string \<rightharpoonup> Point)" where
  "fromEntries entries = map_of (rev entries)"

text \<open>The z-promotion that \<open>handleInteractionStart\<close> applies to the active canvas.\<close>

definition promoteCanvas :: "string \<Rightarrow> CanvasState \<Rightarrow> CanvasState" where
  "promoteCanvas ident c =
     (let isFrame = startsWith ident ''format-frame-'';
          isNode = startsWith ident ''prompt-node-'';
          isImage = \<not> isFrame \<and> \<not> isNode;
          updatedFrames =
            (if isFrame then
               (let maxFrameZ = maxOr (Z_INDEX_BASE_FRAME - 1) (map obj_zIndex (frames c))
                in map (\<lambda>f. if obj_id f = ident then f\<lparr>obj_zIndex := maxFrameZ + 1\<rparr> else f) (frames c))
             else frames c);
          updatedPromptNodes0 =
            (if \<not> isFrame \<and> isNode then
               (let maxNodeZ = maxOr (Z_INDEX_BASE_PROMPT_NODE - 1) (map node_zIndex (promptNodes c))
                in map (\<lambda>p. if node_id p = ident then p\<lparr>node_zIndex := maxNodeZ + 1\<rparr> else p)
                     (promptNodes c))
             else promptNodes c);
          updatedObjects =
            (if \<not> isFrame \<and> \<not> isNode then
               (let maxImageZ = maxOr (Z_INDEX_BASE_IMAGE - 1) (map obj_zIndex (objects c))
                in map (\<lambda>ob. if obj_id ob = ident then ob\<lparr>obj_zIndex := maxImageZ + 1\<rparr> else ob)
                     (objects c))
             else objects c);
          updatedPromptNodes =
            (if isImage \<or> isFrame then
               (let maxNodeZ = maxOr (Z_INDEX_BASE_PROMPT_NODE - 1) (map node_zIndex updatedPromptNodes0)
                in map (\<lambda>p. if attachedToId p = ident then p\<lparr>node_zIndex := maxNodeZ + 1\<rparr> else p)
                     updatedPromptNodes0)
             else updatedPromptNodes0)
      in c\<lparr>objects := updatedObjects, frames := updatedFrames, promptNodes := updatedPromptNodes\<rparr>)"

definition handleInteractionStart ::
  "AppState \<Rightarrow> string \<Rightarrow> MouseEvent \<Rightarrow> InteractionType \<Rightarrow> AppState" where
  "handleInteractionStart s ident e ty =
     (case activeCanvas s of
        None \<Rightarrow> s
      | Some ac \<Rightarrow>
          let isFrame = startsWith ident ''format-frame-'';
              isNode = startsWith ident ''prompt-node-'';
              isImage = \<not> isFrame \<and> \<not> isNode;
              sel = selectedObjectIds s;
              currentSelectedIds =
                (if isImage \<or> isFrame then
                   (if \<not> shiftKey e then (if ident \<in> set sel then sel else [ident])
                    else (if ident \<in> set sel then filter (\<lambda>sid. sid \<noteq> ident) sel
                          else sel @ [ident]))
                 else [ident]);
              s1 = s\<lparr>selectedObjectIds := currentSelectedIds\<rparr>;
              targetObj =
                (if isFrame then map_option TFrame (find (\<lambda>f. obj_id f = ident) (frames ac))
                 else if isNode then map_option TNode (find (\<lambda>p. node_id p = ident) (promptNodes ac))
                 else map_option TImage (find (\<lambda>ob. obj_id ob = ident) (objects ac)))
          in case targetObj of
               None \<Rightarrow> s1
             | Some t \<Rightarrow>
                 if isNode \<and> ty = Move then s1
                 else
                   let movedIds = (if isNode \<or> isFrame then [ident] else currentSelectedIds);
                       allSelected =
                         (if isNode \<or> isFrame then [t]
                          else map TImage
                                 (filter (\<lambda>ob. obj_id ob \<in> set currentSelectedIds) (objects ac)));
                       attachedNodes =
                         filter (\<lambda>p. attachedToId p \<in> set movedIds) (promptNodes ac)
                   in (setActiveCanvas (promoteCanvas ident) s1)
                      \<lparr>interaction :=
                         \<lparr>itype = Some ty, targetId = ident,
                          startX = clientX e, startY = clientY e,
                          startWidth = target_width t, startHeight = target_height t,
                          startRotation = target_rotation_or_0 t,
                          startAspectRatio = target_aspectRatio_or_1 t,
                          centerCanvasX = target_x t + target_width t / 2,
                          centerCanvasY = target_y t + target_height t / 2,
                          movedObjectIds = movedIds,
                          startPositions =
                            fromEntries (map snapshot (allSelected @ map TNode attachedNodes))\<rparr>,
                       listening := True\<rparr>)"

text \<open>
  One object of a move tick: \<open>{ ...t, x: startPos.x + dx, y: startPos.y + dy }\<close> for a target
  that has a start position, the target as it is otherwise. The program rounds each of these
  sums on its own, here they are the exact sums: the distance between two moved objects,
  which that rounding can change in its last binary digit, is not reasoned about.
\<close>

definition moveTarget ::
  "(string \<rightharpoonup> Point) \<Rightarrow> real \<Rightarrow> real \<Rightarrow> 'a CanvasObject_scheme \<Rightarrow> 'a CanvasObject_scheme" where
  "moveTarget startPos dx dy target =
     (case startPos (obj_id target) of
        None \<Rightarrow> target
      | Some sp \<Rightarrow> target\<lparr>obj_x := pt_x sp + dx, obj_y := pt_y sp + dy\<rparr>)"

definition findParent :: "CanvasObject list \<Rightarrow> FrameObject list \<Rightarrow> string \<Rightarrow> CanvasObject option" where
  "findParent newObjects newFrames ident =
     (case find (\<lambda>ob. obj_id ob = ident) newObjects of
        Some ob \<Rightarrow> Some ob
      | None \<Rightarrow> map_option CanvasObject.truncate (find (\<lambda>f. obj_id f = ident) newFrames))"

definition syncNode :: "CanvasObject list \<Rightarrow> FrameObject list \<Rightarrow> PromptNodeObject \<Rightarrow> PromptNodeObject" where
  "syncNode newObjects newFrames node =
     (case findParent newObjects newFrames (attachedToId node) of
        Some parent \<Rightarrow>
          node\<lparr>node_x := obj_x parent - PROMPT_NODE_WIDTH - 8,
               node_y := obj_y parent + obj_height parent / 2 - PROMPT_NODE_HEIGHT / 2,
               node_height := obj_height parent\<rparr>
      | None \<Rightarrow> node)"

text \<open>The update that one \<open>handleMouseMove\<close> tick applies to the active canvas; \<open>ty\<close> is
  the session type (not pan), \<open>dx\<close> and \<open>dy\<close> the canvas-space deltas, \<open>angle\<close> and
  \<open>startAngle\<close> the two angles of the rotate branch.\<close>

definition mouseMoveCanvas ::
  "Interaction \<Rightarrow> InteractionType \<Rightarrow> real \<Rightarrow> real \<Rightarrow> real \<Rightarrow> real \<Rightarrow> CanvasState \<Rightarrow> CanvasState" where
  "mouseMoveCanvas i ty dx dy angle startAngle c =
     (let tid = targetId i;
          isFrame = startsWith tid ''format-frame-'';
          isNode = startsWith tid ''prompt-node-'';
          moved =
            (if ty = Move then
               (if isFrame then
                  (objects c,
                   map (\<lambda>f. if obj_id f \<in> set (movedObjectIds i)
                             then moveTarget (startPositions i) dx dy f else f) (frames c))
                else if isNode then (objects c, frames c)
                else
                  (map (\<lambda>ob. if obj_id ob \<in> set (movedObjectIds i)
                              then moveTarget (startPositions i) dx dy ob else ob) (objects c),
                   frames c))
             else if ty = ResizeBr then
               (if isFrame then
                  (let newWidth = max 50 (startWidth i + dx);
                       newHeight = newWidth / startAspectRatio i
                   in (objects c,
                       map (\<lambda>f. if obj_id f = tid
                                 then f\<lparr>obj_width := newWidth, obj_height := newHeight\<rparr> else f)
                         (frames c)))
                else
                  (let newWidth = max 20 (startWidth i + dx);
                       newHeight = max 20 (startHeight i + dy)
                   in (map (\<lambda>ob. if obj_id ob = tid
                                  then ob\<lparr>obj_width := newWidth, obj_height := newHeight\<rparr> else ob)
                         (objects c),
                       frames c)))
             else if ty = Rotate \<and> \<not> isFrame \<and> \<not> isNode then
               (map (\<lambda>ob. if obj_id ob = tid
                           then ob\<lparr>obj_rotation := startRotation i + (angle - startAngle)\<rparr> else ob)
                  (objects c),
                frames c)
             else (objects c, frames c));
          newObjects = fst moved;
          newFrames = snd moved;
          newPromptNodes = map (syncNode newObjects newFrames) (promptNodes c)
      in c\<lparr>objects := newObjects, frames := newFrames, promptNodes := newPromptNodes\<rparr>)"

definition handleMouseMove :: "AppState \<Rightarrow> MouseEvent \<Rightarrow> AppState" where
  "handleMouseMove s e =
     (case activeCanvas s of
        None \<Rightarrow> s
      | Some ac \<Rightarrow>
          let i = interaction s in
          case itype i of
            None \<Rightarrow> s
          | Some Pan \<Rightarrow> s\<lparr>pan_x := pan_x s + movementX e, pan_y := pan_y s + movementY e\<rparr>
          | Some ty \<Rightarrow>
              if targetId i = [] then s
              else
                let dx = (clientX e - startX i) / zoom s;
                    dy = (clientY e - startY i) / zoom s;
                    mousePos = getCanvasCoordinates s (clientX e) (clientY e);
                    startPos = getCanvasCoordinates s (startX i) (startY i);
                    angle = atan2 (pt_y mousePos - centerCanvasY i) (pt_x mousePos - centerCanvasX i)
                              * (180 / pi);
                    startAngle = atan2 (pt_y startPos - centerCanvasY i) (pt_x startPos - centerCanvasX i)
                                   * (180 / pi)
                in setActiveCanvas (mouseMoveCanvas i ty dx dy angle startAngle) s)"

definition handleMouseUp :: "AppState \<Rightarrow> AppState" where
  "handleMouseUp s = s\<lparr>interaction := (interaction s)\<lparr>itype := None\<rparr>, listening := False\<rparr>"

text \<open>A pointer session after its start: the ticks \<open>handleMouseMove\<close> receives, in
  order.\<close>

definition runTicks :: "AppState \<Rightarrow> MouseEvent list \<Rightarrow> AppState" where
  "runTicks s es = foldl handleMouseMove s es"

text \<open>The derived geometry of a prompt node: with a live parent, its x, y and height are
  the formula of the parent's current geometry.\<close>

definition nodeDerived :: "CanvasState \<Rightarrow> PromptNodeObject \<Rightarrow> bool" where
  "nodeDerived c node =
     (case findParent (objects c) (frames c) (attachedToId node) of
        None \<Rightarrow> True
      | Some parent \<Rightarrow>
          node_x node = obj_x parent - PROMPT_NODE_WIDTH - 8
          \<and> node_y node = obj_y parent + obj_height parent / 2 - PROMPT_NODE_HEIGHT / 2
          \<and> node_height node = obj_height parent)"

section \<open>Frame capture\<close>

text \<open>What the capture depends on outside the program: whether a 2D context can be had,
  and which image sources load.\<close>

record World =
  canvasContext :: bool
  imageLoads :: "string \<Rightarrow> bool"

text \<open>The pixel buffer is modelled by the drawing commands that produce it.\<close>

record ImageDraw =
  img_src :: string
  translate_x :: real
  translate_y :: real
  rotate_rad :: real
  draw_x :: real
  draw_y :: real
  draw_w :: real
  draw_h :: real

datatype DrawOp = FillRect string real real real real | Draw ImageDraw

record Capture =
  drawn :: "DrawOp list"
  cap_width :: int
  cap_height :: int

definition mathRound :: "real \<Rightarrow> int" where
  "mathRound v = \<lfloor>v + 1 / 2\<rfloor>"

definition overlapsFrame :: "'a CanvasObject_scheme \<Rightarrow> CanvasObject \<Rightarrow> bool" where
  "overlapsFrame frame ob =
     (obj_x ob < obj_x frame + obj_width frame \<and> obj_x ob + obj_width ob > obj_x frame \<and>
      obj_y ob < obj_y frame + obj_height frame \<and> obj_y ob + obj_height ob > obj_y frame)"

text \<open>\<open>objects.filter(...).sort((a, b) => a.zIndex - b.zIndex)\<close>; the sort is stable.\<close>

definition objectsToRender :: "FrameObject \<Rightarrow> CanvasObject list \<Rightarrow> CanvasObject list" where
  "objectsToRender frame obs = sort_key obj_zIndex (filter (overlapsFrame frame) obs)"

definition drawObject :: "FrameObject \<Rightarrow> CanvasObject \<Rightarrow> DrawOp" where
  "drawObject frame ob =
     (let relativeX = obj_x ob - obj_x frame;
          relativeY = obj_y ob - obj_y frame
      in Draw \<lparr>img_src = obj_src ob,
               translate_x = relativeX + obj_width ob / 2,
               translate_y = relativeY + obj_height ob / 2,
               rotate_rad = (obj_rotation ob * pi) / 180,
               draw_x = - obj_width ob / 2,
               draw_y = - obj_height ob / 2,
               draw_w = obj_width ob,
               draw_h = obj_height ob\<rparr>)"

text \<open>The result is the error message thrown, or the capture. Of several images that
  fail to load, the first in drawing order gives the message.\<close>

definition captureFrameContentAsDataURL ::
  "World \<Rightarrow> FrameObject \<Rightarrow> CanvasObject list \<Rightarrow> string + Capture" where
  "captureFrameContentAsDataURL w frame obs =
     (let width = mathRound (obj_width frame);
          height = mathRound (obj_height frame)
      in if \<not> canvasContext w then Inl ''Failed to create canvas context for capture.''
         else
           let toRender = objectsToRender frame obs
           in case find (\<lambda>ob. \<not> imageLoads w (obj_src ob)) toRender of
                Some ob \<Rightarrow> Inl (''Could not load image: '' @ take 50 (obj_src ob) @ ''...'')
              | None \<Rightarrow>
                  Inr \<lparr>drawn = FillRect ''#101010'' 0 0 (of_int width) (of_int height)
                               # map (drawObject frame) toRender,
                       cap_width = width, cap_height = height\<rparr>)"

section \<open>Job submission\<close>

text \<open>\<open>String.prototype.trim\<close> strips white space and line terminators: of the code
  units in the range 0 to 255 these are tab, line feed, vertical tab, form feed, carriage
  return, space and the no-break space U+00A0. The others (U+1680, U+2000 to U+200A,
  U+2028, U+2029, U+202F, U+205F, U+3000, U+FEFF) lie outside the range of a \<open>char\<close>.\<close>

definition isSpace :: "char \<Rightarrow> bool" where
  "isSpace ch =
     (ch \<in> set [CHR 0x09, CHR 0x0A, CHR 0x0B, CHR 0x0C, CHR 0x0D, CHR 0x20, CHR 0xA0])"

definition trim :: "string \<Rightarrow> string" where
  "trim str = rev (dropWhile isSpace (rev (dropWhile isSpace str)))"

text \<open>\<open>!apiKey\<close> for a lookup in \<open>apiConfigs\<close>: undefined and the empty string are
  falsy.\<close>

definition missingKey :: "string option \<Rightarrow> bool" where
  "missingKey k = (k = None \<or> k = Some [])"

text \<open>An asynchronous handler is modelled up to its first \<open>await\<close>: either it has
  returned (the request is rejected), or it has registered a job and goes on to capture
  and to call the provider.\<close>

datatype Submission = Rejected AppState | Accepted AppState Job

definition handleSendObjectToApi ::
  "AppState \<Rightarrow> string \<Rightarrow> Provider \<Rightarrow> string \<Rightarrow> Submission" where
  "handleSendObjectToApi s objectId targetApi jobId =
     (case activeCanvas s of
        None \<Rightarrow> Rejected s
      | Some ac \<Rightarrow>
          if length (activeCombinedJobs s) \<ge> 10
          then Rejected (s\<lparr>error := Some ''Maximum of 10 concurrent AI jobs reached.''\<rparr>)
          else
            let isFrame = startsWith objectId ''format-frame-'';
                originalObject =
                  (if isFrame
                   then map_option CanvasObject.truncate
                          (find (\<lambda>f. obj_id f = objectId) (frames ac))
                   else find (\<lambda>ob. obj_id ob = objectId) (objects ac))
            in case originalObject of
                 None \<Rightarrow>
                   Rejected (s\<lparr>error := Some ''Could not find the source object to process.''\<rparr>)
               | Some frame \<Rightarrow>
                   let objectIdsInFrame = map obj_id (filter (overlapsFrame frame) (objects ac));
                       hasNestedPromptNode =
                         list_ex (\<lambda>node. attachedToId node \<in> set objectIdsInFrame) (promptNodes ac)
                   in if isFrame \<and> hasNestedPromptNode
                      then Rejected (s\<lparr>error := Some (''Cannot process frame: An image inside the frame has its own prompt node attached. ''
                                      @ ''Please remove it and attach a single prompt node to the frame itself.'')\<rparr>)
                      else
                        let attachedNode = find (\<lambda>p. attachedToId p = objectId) (promptNodes ac);
                            apiPrompt = (case attachedNode of
                                           Some node \<Rightarrow> node_prompt node
                                         | None \<Rightarrow> prompt s)
                        in if trim apiPrompt = []
                           then Rejected (s\<lparr>error := Some (''Please enter an edit prompt or assign one to the selected object''
                                           @ [CHR 0x27] @ ''s node.'')\<rparr>)
                           else
                             let provider = (if targetApi = NB then ''gemini'' else ''seadream'');
                                 apiKey = apiConfigs s provider
                             in if missingKey apiKey
                                then Rejected (s\<lparr>error := Some (''API key for '' @ provider @ '' is required.'')\<rparr>)
                                else
                                  let job = \<lparr>job_id = jobId, job_provider = targetApi\<rparr>
                                  in Accepted
                                       (s\<lparr>error := None,
                                          apiCallCounts_sd :=
                                            (if targetApi = SD then apiCallCounts_sd s + 1
                                             else apiCallCounts_sd s),
                                          apiCallCounts_nb :=
                                            (if targetApi = SD then apiCallCounts_nb s
                                             else apiCallCounts_nb s + 1),
                                          activeCombinedJobs := activeCombinedJobs s @ [job]\<rparr>)
                                       job)"

definition handleUpscaleSingleImage :: "AppState \<Rightarrow> string \<Rightarrow> string \<Rightarrow> Submission" where
  "handleUpscaleSingleImage s objectId jobId =
     (case activeCanvas s of
        None \<Rightarrow> Rejected s
      | Some ac \<Rightarrow>
          if missingKey (apiConfigs s ''seadream'')
          then Rejected (s\<lparr>error := Some ''SeaDream API key must be connected for upscaling.''\<rparr>)
          else if length (activeCombinedJobs s) \<ge> 10
          then Rejected (s\<lparr>error := Some ''Maximum of 10 concurrent AI jobs reached.''\<rparr>)
          else
            let s1 = s\<lparr>error := None, apiCallCounts_sd := apiCallCounts_sd s + 1\<rparr>
            in case find (\<lambda>ob. obj_id ob = objectId) (objects ac) of
                 None \<Rightarrow> Rejected (s1\<lparr>error := Some ''Could not find source object to upscale.''\<rparr>)
               | Some originalObject \<Rightarrow>
                   let job = \<lparr>job_id = jobId, job_provider = SD\<rparr>
                   in Accepted (s1\<lparr>activeCombinedJobs := activeCombinedJobs s @ [job]\<rparr>) job)"

definition handleGenerateTextToImage :: "AppState \<Rightarrow> string \<Rightarrow> Submission" where
  "handleGenerateTextToImage s jobId =
     (if trim (textGenPrompt s) = [] \<or> missingKey (apiConfigs s ''seadream'')
      then Rejected (s\<lparr>error := Some ''SeaDream API key must be connected and a prompt provided.''\<rparr>)
      else if length (activeCombinedJobs s) \<ge> 10
      then Rejected (s\<lparr>error := Some ''Maximum of 10 concurrent AI jobs reached.''\<rparr>)
      else
        let job = \<lparr>job_id = jobId, job_provider = SD\<rparr>
        in Accepted
             (s\<lparr>error := None, apiCallCounts_sd := apiCallCounts_sd s + 1,
                activeCombinedJobs := activeCombinedJobs s @ [job]\<rparr>)
             job)"

text \<open>The \<open>catch\<close> and \<open>finally\<close> of an accepted job: a failure surfaces its message, and
  the job leaves the active list on every path.\<close>

definition jobSettled :: "AppState \<Rightarrow> string \<Rightarrow> string option \<Rightarrow> AppState" where
  "jobSettled s jobId failure =
     (let s1 = (case failure of None \<Rightarrow> s | Some msg \<Rightarrow> s\<lparr>error := Some msg\<rparr>)
      in s1\<lparr>activeCombinedJobs := filter (\<lambda>job. job_id job \<noteq> jobId) (activeCombinedJobs s1)\<rparr>)"

section \<open>Provider polling (services/geminiService.ts)\<close>

text \<open>
  The two polling loops of \<open>editImageWithSeaDream\<close> and \<open>generateImageWithSeaDream\<close>
  differ in their messages only. Wall-clock time is modelled by the milliseconds elapsed
  since \<open>pollingStartTime\<close>: every iteration takes the 5000 ms of its timer and the
  latency of its request. The provider is a sequence of poll outcomes. The program throws
  plain \<open>Error\<close>s; they are tagged here with the kind the error taxonomy gives them, and
  the exception of a request that throws, which the loop lets through, is a kind of its
  own.
\<close>

datatype ApiError = ProviderError string | TimeoutError string | RequestError string

text \<open>The fields \<open>data.status\<close>, \<open>data.outputs[0]\<close> and \<open>data.error\<close> of a poll's JSON
  body, each possibly absent.\<close>

record PollData =
  poll_status :: "string option"
  poll_output :: "string option"
  poll_error :: "string option"

text \<open>A poll's request: a response that is not ok (with its HTTP status), an ok response
  with its body, or a request that throws.\<close>

datatype Fetch = NotOk nat | OkJson PollData | FetchThrows string

record Poll =
  latency :: nat
  response :: Fetch

record PollMessages =
  msgNoOutput :: string
  msgDownload :: string
  msgFailed :: string
  msgTimeout :: string

definition POLLING_TIMEOUT :: nat where
  "POLLING_TIMEOUT = 3 * 60 * 1000"

text \<open>\<open>x || 'Unknown error'\<close>.\<close>

definition orUnknown :: "string option \<Rightarrow> string" where
  "orUnknown detail =
     (case detail of None \<Rightarrow> ''Unknown error''
      | Some d \<Rightarrow> if d = [] then ''Unknown error'' else d)"

text \<open>The download of the final image: a response that is not ok, a request (or the
  reading of its body) that throws, or the data URI.\<close>

datatype Download = DownloadNotOk | DownloadThrows string | Downloaded string

text \<open>\<open>n\<close> counts the polls made so far.\<close>

function pollLoop ::
  "PollMessages \<Rightarrow> (string \<Rightarrow> Download) \<Rightarrow> (nat \<Rightarrow> Poll) \<Rightarrow> nat \<Rightarrow> nat \<Rightarrow> ApiError + string" where
  "pollLoop m download polls n elapsed =
     (if elapsed < POLLING_TIMEOUT then
        (case response (polls n) of
           NotOk httpStatus \<Rightarrow>
             pollLoop m download polls (Suc n) (elapsed + 5000 + latency (polls n))
         | FetchThrows msg \<Rightarrow> Inl (RequestError msg)
         | OkJson resultData \<Rightarrow>
             if poll_status resultData = Some ''completed'' then
               (case poll_output resultData of
                  None \<Rightarrow> Inl (ProviderError (msgNoOutput m))
                | Some outputUrl \<Rightarrow>
                    if outputUrl = [] then Inl (ProviderError (msgNoOutput m))
                    else (case download outputUrl of
                            DownloadNotOk \<Rightarrow> Inl (ProviderError (msgDownload m @ outputUrl))
                          | DownloadThrows msg \<Rightarrow> Inl (RequestError msg)
                          | Downloaded finalDataUri \<Rightarrow> Inr finalDataUri))
             else if poll_status resultData = Some ''failed'' then
               Inl (ProviderError (msgFailed m @ orUnknown (poll_error resultData)))
             else pollLoop m download polls (Suc n) (elapsed + 5000 + latency (polls n)))
      else Inl (TimeoutError (msgTimeout m)))"
  by pat_completeness auto
termination
  by (relation "measure (\<lambda>(m, download, polls, n, elapsed). POLLING_TIMEOUT - elapsed)") auto

declare pollLoop.simps [simp del]

definition editMessages :: PollMessages where
  "editMessages =
     \<lparr>msgNoOutput = ''Task completed but no output URL was found.'',
      msgDownload = ''Failed to download the final image from '',
      msgFailed = ''SeaDream task failed: '',
      msgTimeout = ''SeaDream task timed out after 3 minutes.''\<rparr>"

definition generateMessages :: PollMessages where
  "generateMessages =
     \<lparr>msgNoOutput = ''Text-gen task completed but no output URL was found.'',
      msgDownload = ''Failed to download the final generated image from '',
      msgFailed = ''SeaDream text-gen task failed: '',
      msgTimeout = ''SeaDream text-gen task timed out after 3 minutes.''\<rparr>"

text \<open>The polling parts of the two service functions; the edit returns
  \<open>{ imageUrls: [finalDataUri] }\<close>, the generation the data URI itself.\<close>

definition editImageWithSeaDream_polling ::
  "(string \<Rightarrow> Download) \<Rightarrow> (nat \<Rightarrow> Poll) \<Rightarrow> ApiError + string list" where
  "editImageWithSeaDream_polling download polls =
     (case pollLoop editMessages download polls 0 0 of
        Inl err \<Rightarrow> Inl err
      | Inr finalDataUri \<Rightarrow> Inr [finalDataUri])"

definition generateImageWithSeaDream_polling ::
  "(string \<Rightarrow> Download) \<Rightarrow> (nat \<Rightarrow> Poll) \<Rightarrow> ApiError + string" where
  "generateImageWithSeaDream_polling download polls = pollLoop generateMessages download polls 0 0"

text \<open>The time on the loop's clock when poll \<open>n\<close> is about to start, and the polls that
  end the loop.\<close>

fun pollTime :: "(nat \<Rightarrow> Poll) \<Rightarrow> nat \<Rightarrow> nat" where
  "pollTime polls 0 = 0"
| "pollTime polls (Suc n) = pollTime polls n + 5000 + latency (polls n)"

definition terminalPoll :: "Poll \<Rightarrow> bool" where
  "terminalPoll p =
     (case response p of
        NotOk httpStatus \<Rightarrow> False
      | FetchThrows msg \<Rightarrow> True
      | OkJson resultData \<Rightarrow>
          poll_status resultData = Some ''completed'' \<or> poll_status resultData = Some ''failed'')"

section \<open>Image import\<close>

text \<open>A chosen file: its object URL, the id its image object gets, the natural size of
  the decoded image (\<open>None\<close> when it fails to load), and its place in the order in which
  the images of the batch finish loading.\<close>

record ImportFile =
  file_url :: string
  file_uuid :: string
  file_natural :: "(real \<times> real) option"
  file_loadRank :: nat

text \<open>A number in a template string: its decimal digits.\<close>

fun showNat :: "nat \<Rightarrow> string" where
  "showNat n =
     (if n < 10 then [''0123456789'' ! n]
      else showNat (n div 10) @ [''0123456789'' ! (n mod 10)])"

declare showNat.simps [simp del]

text \<open>The promise of one file's image: the object built in \<open>onload\<close>, or the rejection
  of \<open>onerror\<close>.\<close>

definition loadImageObject :: "int \<Rightarrow> ImportFile \<Rightarrow> CanvasObject option" where
  "loadImageObject zIndexCounter file =
     (case file_natural file of
        None \<Rightarrow> None
      | Some (w, h) \<Rightarrow>
          Some \<lparr>obj_id = file_uuid file, obj_src = file_url file, obj_x = 0, obj_y = 0,
                obj_width = 150, obj_height = 150 / (w / h), obj_rotation = 0,
                obj_zIndex = zIndexCounter + int (file_loadRank file), isAiResult = None\<rparr>)"

definition positionObject :: "Point \<Rightarrow> nat \<Rightarrow> nat \<times> CanvasObject \<Rightarrow> CanvasObject" where
  "positionObject center len entry =
     (case entry of
        (index, ob) \<Rightarrow>
          ob\<lparr>obj_x := pt_x center - obj_width ob / 2 + (real index - (real len - 1) / 2) * 30,
             obj_y := pt_y center - obj_height ob / 2 + (real index - (real len - 1) / 2) * 30\<rparr>)"

text \<open>
  The handler is asynchronous. Up to its \<open>await\<close> it works on the state of the render
  that created it: it checks the limit there, sets the error and chooses the files it
  keeps. It has then returned, or it awaits the images of the kept files.
\<close>

datatype ImportStep = ImportReturned AppState | ImportAwaiting AppState "ImportFile list"

definition handleAddImagesToCanvas :: "AppState \<Rightarrow> ImportFile list option \<Rightarrow> ImportStep" where
  "handleAddImagesToCanvas s targetFiles =
     (case targetFiles of
        None \<Rightarrow> ImportReturned s
      | Some files \<Rightarrow>
          (case activeCanvas s of
             None \<Rightarrow> ImportReturned s
           | Some ac \<Rightarrow>
               if length files = 0 then ImportReturned s
               else
                 let limit = (20 :: int);
                     currentCount = int (length (objects ac));
                     canAddCount = limit - currentCount
                 in if canAddCount \<le> 0
                    then ImportReturned
                           (s\<lparr>error := Some (''Canvas image limit of '' @ showNat (nat limit)
                                              @ '' reached.'')\<rparr>)
                    else
                      let filesToAdd = take (nat canAddCount) files
                      in ImportAwaiting
                           (s\<lparr>error :=
                                (if length filesToAdd < length files
                                 then Some (''Only '' @ showNat (length filesToAdd)
                                            @ '' were added to reach the limit of ''
                                            @ showNat (nat limit) @ ''.'')
                                 else None)\<rparr>)
                           filesToAdd))"

text \<open>
  After the \<open>await\<close>. \<open>Promise.all\<close> is \<open>those\<close>: one rejected image rejects the batch
  and the handler ends there. Otherwise the images are positioned and appended, by
  \<open>setCanvases(prev => ...)\<close>, to the canvas that the state holds by then: \<open>s\<close> is the state
  of the handler's render (its \<open>activeCanvas\<close>, \<open>activeCanvasId\<close> and view transform),
  \<open>latest\<close> the state at the time of the commit, whose viewport the ref reads.
\<close>

definition handleAddImagesToCanvas_resume ::
  "AppState \<Rightarrow> ImportFile list \<Rightarrow> AppState \<Rightarrow> AppState" where
  "handleAddImagesToCanvas_resume s filesToAdd latest =
     (case activeCanvas s of
        None \<Rightarrow> latest
      | Some ac \<Rightarrow>
          let zIndexCounter =
                (if length (objects ac) > 0
                 then maxOr 0 (map obj_zIndex (objects ac)) + 1
                 else Z_INDEX_BASE_IMAGE)
          in case those (map (loadImageObject zIndexCounter) filesToAdd) of
               None \<Rightarrow> latest
             | Some newImageObjects \<Rightarrow>
                 let center =
                       (case viewport latest of
                          Some viewportBounds \<Rightarrow>
                            getCanvasCoordinates (s\<lparr>viewport := viewport latest\<rparr>)
                              (dom_left viewportBounds + dom_width viewportBounds / 2)
                              (dom_top viewportBounds + dom_height viewportBounds / 2)
                        | None \<Rightarrow> \<lparr>pt_x = 0, pt_y = 0\<rparr>);
                     positionedObjects =
                       map (positionObject center (length newImageObjects))
                         (enumerate 0 newImageObjects)
                 in latest\<lparr>canvases :=
                             map (\<lambda>c. if Some (canvas_id c) = activeCanvasId s
                                       then c\<lparr>objects := objects c @ positionedObjects\<rparr> else c)
                               (canvases latest)\<rparr>)"

section \<open>A sample canvas\<close>

text \<open>Two images, a frame over the first of them, and a prompt node on the first image
  and on the frame; the concrete inputs of the worked instances below.\<close>

definition imageA :: CanvasObject where
  "imageA = \<lparr>obj_id = ''img-a'', obj_src = ''a.png'', obj_x = 50, obj_y = 50,
              obj_width = 100, obj_height = 100, obj_rotation = 0, obj_zIndex = 1,
              isAiResult = None\<rparr>"

definition imageB :: CanvasObject where
  "imageB = \<lparr>obj_id = ''img-b'', obj_src = ''b.png'', obj_x = 200, obj_y = 200,
              obj_width = 50, obj_height = 50, obj_rotation = 0, obj_zIndex = 2,
              isAiResult = None\<rparr>"

definition frameF :: FrameObject where
  "frameF = \<lparr>obj_id = ''format-frame-f'', obj_src = [], obj_x = 0, obj_y = 0,
              obj_width = 100, obj_height = 100, obj_rotation = 0, obj_zIndex = 10000,
              isAiResult = None, aspectRatio = 1\<rparr>"

definition nodeA :: PromptNodeObject where
  "nodeA = \<lparr>node_id = ''prompt-node-a'', attachedToId = ''img-a'', node_x = - 6, node_y = 10,
             node_width = 48, node_height = 100, node_zIndex = 20000,
             node_prompt = ''make it blue''\<rparr>"

definition nodeF :: PromptNodeObject where
  "nodeF = \<lparr>node_id = ''prompt-node-f'', attachedToId = ''format-frame-f'', node_x = - 56,
             node_y = - 40, node_width = 48, node_height = 100, node_zIndex = 20001,
             node_prompt = []\<rparr>"

definition sampleCanvas :: CanvasState where
  "sampleCanvas = \<lparr>canvas_id = ''canvas-1'', canvas_name = ''Default Canvas'',
                    objects = [imageA, imageB], frames = [frameF],
                    promptNodes = [nodeA, nodeF]\<rparr>"

definition idle :: Interaction where
  "idle = \<lparr>itype = None, targetId = [], startX = 0, startY = 0, startWidth = 0,
            startHeight = 0, startRotation = 0, startAspectRatio = 1, centerCanvasX = 0,
            centerCanvasY = 0, movedObjectIds = [], startPositions = Map.empty\<rparr>"

definition sampleState :: AppState where
  "sampleState = \<lparr>canvases = [sampleCanvas], activeCanvasId = Some ''canvas-1'',
                   selectedObjectIds = [''img-a'', ''img-b''], zoom = 1 / 2, pan_x = 0, pan_y = 0,
                   viewport = Some \<lparr>dom_left = 0, dom_top = 0, dom_width = 1000, dom_height = 1000\<rparr>,
                   interaction = idle, listening = False, activeCombinedJobs = [],
                   apiConfigs = [''seadream'' \<mapsto> ''key''], prompt = ''make it blue'',
                   textGenPrompt = ''a cat'', error = None,
                   apiCallCounts_sd = 0, apiCallCounts_nb = 0\<rparr>"

text \<open>A provider that reports failure at once, one that answers 503 for ever, and a
  download that gives back a data URI.\<close>

definition failingProvider :: "nat \<Rightarrow> Poll" where
  "failingProvider n =
     \<lparr>latency = 200,
      response = OkJson \<lparr>poll_status = Some ''failed'', poll_output = None,
                         poll_error = Some ''content policy''\<rparr>\<rparr>"

definition unavailableProvider :: "nat \<Rightarrow> Poll" where
  "unavailableProvider n = \<lparr>latency = 200, response = NotOk 503\<rparr>"

definition dataUriOf :: "string \<Rightarrow> Download" where
  "dataUriOf url = Downloaded (''data:image/png;base64,'' @ url)"

text \<open>A file that decodes to a 400 by 200 image, a file that does not decode, and the
  sample state with twenty images on its canvas.\<close>

definition pngFile :: ImportFile where
  "pngFile = \<lparr>file_url = ''blob:1'', file_uuid = ''uuid-1'', file_natural = Some (400, 200),
               file_loadRank = 0\<rparr>"

definition brokenFile :: ImportFile where
  "brokenFile = \<lparr>file_url = ''blob:2'', file_uuid = ''uuid-2'', file_natural = None,
                  file_loadRank = 0\<rparr>"

definition crowdedCanvas :: CanvasState where
  "crowdedCanvas =
     sampleCanvas\<lparr>objects := map (\<lambda>k. imageA\<lparr>obj_id := ''img-'' @ showNat k, obj_zIndex := int k\<rparr>)
                                [0..<20]\<rparr>"

definition crowdedState :: AppState where
  "crowdedState = sampleState\<lparr>canvases := [crowdedCanvas]\<rparr>"

text \<open>The same state one image earlier: nineteen images on the canvas.\<close>

definition almostFullState :: AppState where
  "almostFullState =
     sampleState\<lparr>canvases := [crowdedCanvas\<lparr>objects := butlast (objects crowdedCanvas)\<rparr>]\<rparr>"

text \<open>Ten jobs in flight, five of each provider.\<close>

definition tenJobs :: "Job list" where
  "tenJobs = map (\<lambda>k. \<lparr>job_id = ''job-'' @ showNat k,
                        job_provider = (if even k then SD else NB)\<rparr>) [1..<11]"

definition pointerDown :: MouseEvent where
  "pointerDown = \<lparr>clientX = 10, clientY = 10, movementX = 0, movementY = 0, shiftKey = False\<rparr>"

definition pointerAt :: "real \<Rightarrow> real \<Rightarrow> MouseEvent" where
  "pointerAt px py = \<lparr>clientX = px, clientY = py, movementX = 0, movementY = 0, shiftKey = False\<rparr>"

section \<open>Pointer sessions\<close>

lemma find_map_if:
  assumes "\<And>c. canvas_id (f c) = canvas_id c"
  shows "find (\<lambda>c. Some (canvas_id c) = a) (map (\<lambda>c. if Some (canvas_id c) = a then f c else c) cs)
         = map_option f (find (\<lambda>c. Some (canvas_id c) = a) cs)"
  by (induction cs) (simp_all add: assms)

lemma activeCanvas_setActiveCanvas:
  assumes "\<And>c. canvas_id (f c) = canvas_id c"
  shows "activeCanvas (setActiveCanvas f s) = map_option f (activeCanvas s)"
  unfolding activeCanvas_def setActiveCanvas_def
  using find_map_if [of f "activeCanvasId s" "canvases s", OF assms] by simp

lemma canvas_id_mouseMoveCanvas [simp]:
  "canvas_id (mouseMoveCanvas i ty dx dy a sa c) = canvas_id c"
  by (simp add: mouseMoveCanvas_def Let_def)

lemma canvas_id_promoteCanvas [simp]:
  "canvas_id (promoteCanvas ident c) = canvas_id c"
  by (simp add: promoteCanvas_def Let_def)

lemma attachedToId_syncNode [simp]: "attachedToId (syncNode os fs n) = attachedToId n"
  by (simp add: syncNode_def split: option.splits)

lemma syncNode_derived:
  "objects c = os \<Longrightarrow> frames c = fs \<Longrightarrow> nodeDerived c (syncNode os fs n)"
  by (auto simp: nodeDerived_def syncNode_def split: option.splits)

lemma mouseMoveCanvas_nodes:
  "promptNodes (mouseMoveCanvas i ty dx dy a sa c)
     = map (syncNode (objects (mouseMoveCanvas i ty dx dy a sa c))
                     (frames (mouseMoveCanvas i ty dx dy a sa c))) (promptNodes c)"
  by (simp add: mouseMoveCanvas_def Let_def)

lemma mouseMoveCanvas_derived:
  "list_all (nodeDerived (mouseMoveCanvas i ty dx dy a sa c))
     (promptNodes (mouseMoveCanvas i ty dx dy a sa c))"
  by (subst mouseMoveCanvas_nodes) (simp add: list_all_iff syncNode_derived)

lemma handleMouseMove_tick:
  assumes "activeCanvas s = Some c" "itype (interaction s) = Some ty" "ty \<noteq> Pan"
    "targetId (interaction s) \<noteq> []"
  shows "\<exists>dx dy a sa. activeCanvas (handleMouseMove s e)
           = Some (mouseMoveCanvas (interaction s) ty dx dy a sa c)
          \<and> dx = (clientX e - startX (interaction s)) / zoom s
          \<and> dy = (clientY e - startY (interaction s)) / zoom s"
  using assms
  by (cases ty; simp add: handleMouseMove_def Let_def activeCanvas_setActiveCanvas; blast)

lemma interaction_setActiveCanvas [simp]: "interaction (setActiveCanvas f s) = interaction s"
  and zoom_setActiveCanvas [simp]: "zoom (setActiveCanvas f s) = zoom s"
  and activeCanvasId_setActiveCanvas [simp]: "activeCanvasId (setActiveCanvas f s) = activeCanvasId s"
  and selected_setActiveCanvas [simp]: "selectedObjectIds (setActiveCanvas f s) = selectedObjectIds s"
  by (simp_all add: setActiveCanvas_def)

lemma handleMouseMove_keeps:
  "interaction (handleMouseMove s e) = interaction s"
  "zoom (handleMouseMove s e) = zoom s"
  "activeCanvasId (handleMouseMove s e) = activeCanvasId s"
  by (simp_all add: handleMouseMove_def Let_def split: option.splits InteractionType.splits)

lemma runTicks_keeps:
  "interaction (runTicks s es) = interaction s"
  "zoom (runTicks s es) = zoom s"
  "activeCanvasId (runTicks s es) = activeCanvasId s"
  by (induction es rule: rev_induct) (simp_all add: runTicks_def handleMouseMove_keeps)

lemma obj_id_moveTarget [simp]: "obj_id (moveTarget sp dx dy t) = obj_id t"
  by (simp add: moveTarget_def split: option.splits)

lemma aspectRatio_moveTarget [simp]: "aspectRatio (moveTarget sp dx dy t) = aspectRatio t"
  by (simp add: moveTarget_def split: option.splits)

lemma mouseMoveCanvas_ids:
  "map obj_id (objects (mouseMoveCanvas i ty dx dy a sa c)) = map obj_id (objects c)"
  "map obj_id (frames (mouseMoveCanvas i ty dx dy a sa c)) = map obj_id (frames c)"
  "map aspectRatio (frames (mouseMoveCanvas i ty dx dy a sa c)) = map aspectRatio (frames c)"
  by (simp_all add: mouseMoveCanvas_def Let_def comp_def cong: map_cong)

lemma activeCanvas_cong:
  "canvases s' = canvases s \<Longrightarrow> activeCanvasId s' = activeCanvasId s \<Longrightarrow> activeCanvas s' = activeCanvas s"
  by (simp add: activeCanvas_def)

lemma handleMouseMove_active:
  assumes "activeCanvas s = Some c"
  shows "\<exists>c'. activeCanvas (handleMouseMove s e) = Some c'
          \<and> map obj_id (objects c') = map obj_id (objects c)
          \<and> map obj_id (frames c') = map obj_id (frames c)
          \<and> map aspectRatio (frames c') = map aspectRatio (frames c)"
proof (cases "itype (interaction s)")
  case None
  then show ?thesis using assms by (simp add: handleMouseMove_def)
next
  case (Some ty)
  show ?thesis
  proof (cases "ty = Pan \<or> targetId (interaction s) = []")
    case True
    have "activeCanvas (handleMouseMove s e) = activeCanvas s"
      using True Some assms
      by (intro activeCanvas_cong) (auto simp: handleMouseMove_def Let_def split: InteractionType.splits)
    then show ?thesis using assms by simp
  next
    case False
    then obtain dx dy a sa where
      "activeCanvas (handleMouseMove s e) = Some (mouseMoveCanvas (interaction s) ty dx dy a sa c)"
      using handleMouseMove_tick [OF assms Some, of e] by blast
    then show ?thesis by (simp add: mouseMoveCanvas_ids)
  qed
qed

lemma runTicks_snoc: "runTicks s (es @ [e]) = handleMouseMove (runTicks s es) e"
  by (simp add: runTicks_def)

lemma runTicks_active:
  assumes "activeCanvas s = Some c"
  shows "\<exists>c'. activeCanvas (runTicks s es) = Some c'
          \<and> map obj_id (objects c') = map obj_id (objects c)
          \<and> map obj_id (frames c') = map obj_id (frames c)
          \<and> map aspectRatio (frames c') = map aspectRatio (frames c)"
proof (induction es rule: rev_induct)
  case Nil
  then show ?case using assms by (simp add: runTicks_def)
next
  case (snoc e es)
  then obtain c1 where c1: "activeCanvas (runTicks s es) = Some c1"
    "map obj_id (objects c1) = map obj_id (objects c)"
    "map obj_id (frames c1) = map obj_id (frames c)"
    "map aspectRatio (frames c1) = map aspectRatio (frames c)"
    by blast
  from handleMouseMove_active [OF c1(1), of e] c1(2-4) show ?case
    by (auto simp: runTicks_snoc)
qed

text \<open>The last tick of a session decides the geometry.\<close>

lemma runTicks_last:
  assumes "activeCanvas s = Some c" "itype (interaction s) = Some ty" "ty \<noteq> Pan"
    "targetId (interaction s) \<noteq> []" "es \<noteq> []"
  shows "\<exists>c1 a sa. map obj_id (objects c1) = map obj_id (objects c)
          \<and> map obj_id (frames c1) = map obj_id (frames c)
          \<and> map aspectRatio (frames c1) = map aspectRatio (frames c)
          \<and> activeCanvas (runTicks s es)
              = Some (mouseMoveCanvas (interaction s) ty
                        ((clientX (last es) - startX (interaction s)) / zoom s)
                        ((clientY (last es) - startY (interaction s)) / zoom s) a sa c1)"
proof -
  obtain es' e where es: "es = es' @ [e]"
    using assms(5) by (cases es rule: rev_cases) auto
  obtain c1 where c1: "activeCanvas (runTicks s es') = Some c1"
    "map obj_id (objects c1) = map obj_id (objects c)"
    "map obj_id (frames c1) = map obj_id (frames c)"
    "map aspectRatio (frames c1) = map aspectRatio (frames c)"
    using runTicks_active [OF assms(1), of es'] by blast
  have i: "itype (interaction (runTicks s es')) = Some ty"
    "targetId (interaction (runTicks s es')) \<noteq> []"
    using assms by (simp_all add: runTicks_keeps)
  from handleMouseMove_tick [OF c1(1) i(1) assms(3) i(2), of e]
  show ?thesis using c1(2-4) by (auto simp: es runTicks_snoc runTicks_keeps)
qed

lemma activeCanvas_upd [simp]:
  "activeCanvas (s\<lparr>selectedObjectIds := x\<rparr>) = activeCanvas s"
  "activeCanvas (s\<lparr>interaction := i\<rparr>) = activeCanvas s"
  "activeCanvas (s\<lparr>listening := b\<rparr>) = activeCanvas s"
  "activeCanvas (s\<lparr>error := er\<rparr>) = activeCanvas s"
  by (simp_all add: activeCanvas_def)

lemma startsWith_nonempty: "startsWith tid (p # ps) \<Longrightarrow> tid \<noteq> []"
  by (auto simp: startsWith_def)

lemma frame_not_node:
  "startsWith tid ''format-frame-'' \<Longrightarrow> \<not> startsWith tid ''prompt-node-''"
  by (cases tid) (auto simp: startsWith_def)

lemma start_frame:
  fixes e :: MouseEvent
  assumes "activeCanvas s = Some c" "startsWith tid ''format-frame-''"
    "find (\<lambda>f. obj_id f = tid) (frames c) = Some f0"
  shows "itype (interaction (handleInteractionStart s tid e ResizeBr)) = Some ResizeBr"
    "targetId (interaction (handleInteractionStart s tid e ResizeBr)) = tid"
    "startX (interaction (handleInteractionStart s tid e ResizeBr)) = clientX e"
    "startY (interaction (handleInteractionStart s tid e ResizeBr)) = clientY e"
    "startWidth (interaction (handleInteractionStart s tid e ResizeBr)) = obj_width f0"
    "startAspectRatio (interaction (handleInteractionStart s tid e ResizeBr))
       = (if aspectRatio f0 = 0 then 1 else aspectRatio f0)"
    "zoom (handleInteractionStart s tid e ResizeBr) = zoom s"
    "activeCanvas (handleInteractionStart s tid e ResizeBr) = Some (promoteCanvas tid c)"
  using assms
  by (simp_all add: handleInteractionStart_def Let_def activeCanvas_setActiveCanvas)

lemma promoteCanvas_frames:
  "map obj_id (frames (promoteCanvas tid c)) = map obj_id (frames c)"
  "map aspectRatio (frames (promoteCanvas tid c)) = map aspectRatio (frames c)"
  by (simp_all add: promoteCanvas_def Let_def comp_def cong: map_cong)

lemma pairs_preserved:
  assumes "map g xs = map g ys" "map h xs = map h ys" "x \<in> set xs"
  shows "\<exists>y\<in>set ys. g y = g x \<and> h y = h x"
proof -
  from assms(3) obtain k where k: "k < length xs" "xs ! k = x"
    by (auto simp: in_set_conv_nth)
  have len: "length xs = length ys" using assms(1) by (rule map_eq_imp_length_eq)
  have "g (ys ! k) = g (xs ! k)" using k len assms(1) by (metis nth_map)
  moreover have "h (ys ! k) = h (xs ! k)" using k len assms(2) by (metis nth_map)
  ultimately show ?thesis using k len by (metis nth_mem)
qed

lemma find_unique:
  assumes "distinct (map g xs)" "find (\<lambda>x. g x = k) xs = Some x0" "y \<in> set xs" "g y = k"
  shows "y = x0"
proof -
  have "x0 \<in> set xs" "g x0 = k" using assms(2) by (auto simp: find_Some_iff)
  then show ?thesis using assms(1,3,4) by (metis distinct_map inj_onD)
qed

lemma mouseMoveCanvas_resize_frames:
  assumes "startsWith (targetId i) ''format-frame-''"
  shows "frames (mouseMoveCanvas i ResizeBr dx dy a sa c)
     = map (\<lambda>f. if obj_id f = targetId i
                 then f\<lparr>obj_width := max 50 (startWidth i + dx),
                        obj_height := max 50 (startWidth i + dx) / startAspectRatio i\<rparr>
                 else f) (frames c)"
  using assms by (simp add: mouseMoveCanvas_def Let_def)

lemma start_image:
  fixes e :: MouseEvent
  assumes "activeCanvas s = Some c" "\<not> startsWith ident ''format-frame-''"
    "\<not> startsWith ident ''prompt-node-''"
    "find (\<lambda>ob. obj_id ob = ident) (objects c) = Some t"
  shows "itype (interaction (handleInteractionStart s ident e Move)) = Some Move"
    "targetId (interaction (handleInteractionStart s ident e Move)) = ident"
    "startX (interaction (handleInteractionStart s ident e Move)) = clientX e"
    "startY (interaction (handleInteractionStart s ident e Move)) = clientY e"
    "movedObjectIds (interaction (handleInteractionStart s ident e Move))
       = selectedObjectIds (handleInteractionStart s ident e Move)"
    "startPositions (interaction (handleInteractionStart s ident e Move))
       = fromEntries (map snapshot
           (map TImage (filter (\<lambda>ob. obj_id ob \<in> set (selectedObjectIds (handleInteractionStart s ident e Move)))
                          (objects c))
            @ map TNode (filter (\<lambda>p. attachedToId p \<in> set (selectedObjectIds (handleInteractionStart s ident e Move)))
                          (promptNodes c))))"
    "zoom (handleInteractionStart s ident e Move) = zoom s"
    "activeCanvas (handleInteractionStart s ident e Move) = Some (promoteCanvas ident c)"
    "startAspectRatio (interaction (handleInteractionStart s ident e Move)) = 1"
  using assms
  by (simp_all add: handleInteractionStart_def Let_def activeCanvas_setActiveCanvas)

text \<open>The definitions that evaluate the sample canvas.\<close>

lemmas sample_defs = sampleState_def sampleCanvas_def imageA_def imageB_def frameF_def nodeA_def
  nodeF_def idle_def pointerDown_def pointerAt_def activeCanvas_def startsWith_def

section \<open>Prompt nodes follow their parents\<close>

lemma node_id_syncNode [simp]: "node_id (syncNode os fs n) = node_id n"
  by (simp add: syncNode_def split: option.splits)

text \<open>
  Right after \<open>handleAddPromptNode\<close> the new node has the constant height 180, not the
  height of its parent: a node added to the second sample image (50 high) is not in
  derived position.
\<close>

theorem C2_counterexample_created_node_height:
  "\<exists>c'. activeCanvas (handleAddPromptNode (sampleState\<lparr>selectedObjectIds := [''img-b'']\<rparr>) ''u'') = Some c'
        \<and> list_all (nodeDerived sampleCanvas) (promptNodes sampleCanvas)
        \<and> \<not> list_all (nodeDerived c') (promptNodes c')
        \<and> map node_height (promptNodes c') = [100, 100, 180]
        \<and> map obj_height (objects c') = [100, 50]"
  by (simp add: handleAddPromptNode_def Let_def sample_defs setActiveCanvas_def nodeDerived_def
      findParent_def newPromptNode_def maxOr_def PROMPT_NODE_WIDTH_def PROMPT_NODE_HEIGHT_def
      Z_INDEX_BASE_PROMPT_NODE_def CanvasObject.truncate_def)

lemma handleAddPromptNode_creates:
  assumes "activeCanvas s = Some c" and "selectedObjectIds s = [pid]"
    and "(if startsWith pid ''format-frame-''
          then map_option CanvasObject.truncate (find (\<lambda>f. obj_id f = pid) (frames c))
          else find (\<lambda>ob. obj_id ob = pid) (objects c)) = Some par"
    and "\<not> list_ex (\<lambda>p. attachedToId p = pid) (promptNodes c)"
  shows "\<exists>z. activeCanvas (handleAddPromptNode s uuid)
              = Some (c\<lparr>promptNodes := promptNodes c @ [newPromptNode uuid z par]\<rparr>)"
  using assms
  by (auto simp: handleAddPromptNode_def Let_def activeCanvas_setActiveCanvas)

text \<open>
  C2 (amended). Immediately after every tick of a move, resize or rotate session, every
  prompt node of the active canvas that has a live parent has
  \<open>x = parent.x - 48 - 8\<close>, \<open>y = parent.y + parent.height / 2 - 180 / 2\<close> and
  \<open>height = parent.height\<close>, whatever its x, y and height were before; the tick changes
  neither the nodes' ids nor their attachment. In any state, idle or not, a node added to
  the one selected object that has none yet is created with that x and that y, with the
  width 48 and with the constant height 180, not the height of its parent.
\<close>

theorem C2_prompt_node_derived_after_tick:
  "(activeCanvas s = Some c \<and> itype (interaction s) = Some ty \<and> ty \<noteq> Pan
      \<and> targetId (interaction s) \<noteq> [] \<and> 0 < zoom s
      \<and> startAspectRatio (interaction s) \<noteq> 0 \<longrightarrow>
      (\<exists>c'. activeCanvas (handleMouseMove s e) = Some c'
          \<and> list_all (nodeDerived c') (promptNodes c')
          \<and> map node_id (promptNodes c') = map node_id (promptNodes c)
          \<and> map attachedToId (promptNodes c') = map attachedToId (promptNodes c)))
   \<and> (activeCanvas t = Some d \<and> selectedObjectIds t = [pid]
      \<and> (if startsWith pid ''format-frame-''
          then map_option CanvasObject.truncate (find (\<lambda>f. obj_id f = pid) (frames d))
          else find (\<lambda>ob. obj_id ob = pid) (objects d)) = Some parent
      \<and> \<not> list_ex (\<lambda>p. attachedToId p = pid) (promptNodes d) \<longrightarrow>
      (\<exists>n. activeCanvas (handleAddPromptNode t uuid)
                = Some (d\<lparr>promptNodes := promptNodes d @ [n]\<rparr>)
          \<and> attachedToId n = obj_id parent
          \<and> node_x n = obj_x parent - 48 - 8
          \<and> node_y n = obj_y parent + obj_height parent / 2 - 180 / 2
          \<and> node_width n = 48
          \<and> node_height n = 180))
   \<and> PROMPT_NODE_WIDTH = 48 \<and> PROMPT_NODE_HEIGHT = 180"
proof -
  have tick: "\<exists>c'. activeCanvas (handleMouseMove s e) = Some c'
            \<and> list_all (nodeDerived c') (promptNodes c')
            \<and> map node_id (promptNodes c') = map node_id (promptNodes c)
            \<and> map attachedToId (promptNodes c') = map attachedToId (promptNodes c)"
    if h: "activeCanvas s = Some c \<and> itype (interaction s) = Some ty \<and> ty \<noteq> Pan
      \<and> targetId (interaction s) \<noteq> [] \<and> 0 < zoom s
      \<and> startAspectRatio (interaction s) \<noteq> 0"
  proof -
    obtain dx dy a sa where t:
      "activeCanvas (handleMouseMove s e) = Some (mouseMoveCanvas (interaction s) ty dx dy a sa c)"
      using handleMouseMove_tick [of s c ty e] h by blast
    have ids: "map node_id (promptNodes (mouseMoveCanvas (interaction s) ty dx dy a sa c))
                 = map node_id (promptNodes c)"
      "map attachedToId (promptNodes (mouseMoveCanvas (interaction s) ty dx dy a sa c))
                 = map attachedToId (promptNodes c)"
      by (simp_all add: mouseMoveCanvas_nodes comp_def)
    show ?thesis
      using t mouseMoveCanvas_derived [of "interaction s" ty dx dy a sa c] ids by simp
  qed
  have new: "\<exists>n. activeCanvas (handleAddPromptNode t uuid)
                = Some (d\<lparr>promptNodes := promptNodes d @ [n]\<rparr>)
          \<and> attachedToId n = obj_id parent
          \<and> node_x n = obj_x parent - 48 - 8
          \<and> node_y n = obj_y parent + obj_height parent / 2 - 180 / 2
          \<and> node_width n = 48
          \<and> node_height n = 180"
    if h: "activeCanvas t = Some d \<and> selectedObjectIds t = [pid]
      \<and> (if startsWith pid ''format-frame-''
          then map_option CanvasObject.truncate (find (\<lambda>f. obj_id f = pid) (frames d))
          else find (\<lambda>ob. obj_id ob = pid) (objects d)) = Some parent
      \<and> \<not> list_ex (\<lambda>p. attachedToId p = pid) (promptNodes d)"
  proof -
    obtain z where z: "activeCanvas (handleAddPromptNode t uuid)
              = Some (d\<lparr>promptNodes := promptNodes d @ [newPromptNode uuid z parent]\<rparr>)"
      using handleAddPromptNode_creates [of t d pid parent uuid] h by blast
    show ?thesis
      using z
      by (intro exI [of _ "newPromptNode uuid z parent"])
         (simp add: newPromptNode_def PROMPT_NODE_WIDTH_def PROMPT_NODE_HEIGHT_def)
  qed
  show ?thesis
    using tick new by (simp add: PROMPT_NODE_WIDTH_def PROMPT_NODE_HEIGHT_def)
qed

text \<open>On the sample canvas. The second image is dragged; the node of the first image,
  displaced beforehand, is back in derived position after the tick. In the idle sample
  state with the second image (at (200, 200), 50 high) alone selected, the node added to it
  is at (144, 135) and 180 high.\<close>

theorem C2_witness:
  "(\<exists>c'. activeCanvas
           (handleMouseMove
              (handleInteractionStart
                 (setActiveCanvas (\<lambda>c. c\<lparr>promptNodes := [nodeA\<lparr>node_x := 0, node_y := 0, node_height := 7\<rparr>]\<rparr>)
                    (sampleState\<lparr>selectedObjectIds := [''img-b'']\<rparr>))
                 ''img-b'' pointerDown Move)
              (pointerAt 30 20)) = Some c'
        \<and> list_all (nodeDerived c') (promptNodes c')
        \<and> map node_id (promptNodes c') = [''prompt-node-a'']
        \<and> map attachedToId (promptNodes c') = [''img-a''])
   \<and> itype (interaction (sampleState\<lparr>selectedObjectIds := [''img-b'']\<rparr>)) = None
   \<and> (\<exists>n. activeCanvas (handleAddPromptNode (sampleState\<lparr>selectedObjectIds := [''img-b'']\<rparr>) ''u'')
              = Some (sampleCanvas\<lparr>promptNodes := [nodeA, nodeF, n]\<rparr>)
        \<and> attachedToId n = ''img-b'' \<and> node_x n = 144 \<and> node_y n = 135
        \<and> node_width n = 48 \<and> node_height n = 180)"
proof -
  define s0 where "s0 = setActiveCanvas
     (\<lambda>c. c\<lparr>promptNodes := [nodeA\<lparr>node_x := 0, node_y := 0, node_height := 7\<rparr>]\<rparr>)
     (sampleState\<lparr>selectedObjectIds := [''img-b'']\<rparr>)"
  define c0 where "c0 = sampleCanvas\<lparr>promptNodes := [nodeA\<lparr>node_x := 0, node_y := 0, node_height := 7\<rparr>]\<rparr>"
  define s1 where "s1 = handleInteractionStart s0 ''img-b'' pointerDown Move"
  define t0 where "t0 = sampleState\<lparr>selectedObjectIds := [''img-b'']\<rparr>"
  have a0: "activeCanvas s0 = Some c0"
    by (simp add: s0_def c0_def sample_defs setActiveCanvas_def)
  have n1: "\<not> startsWith ''img-b'' ''format-frame-''" "\<not> startsWith ''img-b'' ''prompt-node-''"
    by (simp_all add: startsWith_def)
  have f: "find (\<lambda>ob. obj_id ob = ''img-b'') (objects c0) = Some imageB"
    by (simp add: c0_def sample_defs)
  note st = start_image [OF a0 n1 f, of pointerDown, folded s1_def]
  have tickh: "activeCanvas s1 = Some (promoteCanvas ''img-b'' c0)
      \<and> itype (interaction s1) = Some Move \<and> Move \<noteq> Pan
      \<and> targetId (interaction s1) \<noteq> [] \<and> 0 < zoom s1
      \<and> startAspectRatio (interaction s1) \<noteq> 0"
  proof -
    have "zoom s1 = 1 / 2"
      by (simp add: st(7) s0_def setActiveCanvas_def sampleState_def)
    then show ?thesis by (simp add: st)
  qed
  have nodes: "promptNodes (promoteCanvas ''img-b'' c0)
      = [nodeA\<lparr>node_x := 0, node_y := 0, node_height := 7\<rparr>]"
    by (simp add: promoteCanvas_def Let_def c0_def sample_defs maxOr_def Z_INDEX_BASE_PROMPT_NODE_def)
  have newh: "activeCanvas t0 = Some sampleCanvas \<and> selectedObjectIds t0 = [''img-b'']
      \<and> (if startsWith ''img-b'' ''format-frame-''
          then map_option CanvasObject.truncate (find (\<lambda>f. obj_id f = ''img-b'') (frames sampleCanvas))
          else find (\<lambda>ob. obj_id ob = ''img-b'') (objects sampleCanvas)) = Some imageB
      \<and> \<not> list_ex (\<lambda>p. attachedToId p = ''img-b'') (promptNodes sampleCanvas)"
    by (simp add: t0_def sample_defs)
  note inst = C2_prompt_node_derived_after_tick
      [where s = s1 and c = "promoteCanvas ''img-b'' c0" and ty = Move and e = "pointerAt 30 20"
         and t = t0 and d = sampleCanvas and pid = "''img-b''" and parent = imageB
         and uuid = "''u''"]
  have 1: "\<exists>c'. activeCanvas (handleMouseMove s1 (pointerAt 30 20)) = Some c'
        \<and> list_all (nodeDerived c') (promptNodes c')
        \<and> map node_id (promptNodes c') = [''prompt-node-a'']
        \<and> map attachedToId (promptNodes c') = [''img-a'']"
    using inst tickh by (simp add: nodes nodeA_def)
  have 2: "\<exists>n. activeCanvas (handleAddPromptNode t0 ''u'')
              = Some (sampleCanvas\<lparr>promptNodes := [nodeA, nodeF, n]\<rparr>)
        \<and> attachedToId n = ''img-b'' \<and> node_x n = 144 \<and> node_y n = 135
        \<and> node_width n = 48 \<and> node_height n = 180"
  proof -
    from inst newh obtain n where n:
      "activeCanvas (handleAddPromptNode t0 ''u'')
         = Some (sampleCanvas\<lparr>promptNodes := promptNodes sampleCanvas @ [n]\<rparr>)"
      "attachedToId n = obj_id imageB"
      "node_x n = obj_x imageB - 48 - 8"
      "node_y n = obj_y imageB + obj_height imageB / 2 - 180 / 2"
      "node_width n = 48" "node_height n = 180"
      by blast
    show ?thesis
      using n by (intro exI [of _ n]) (simp add: sampleCanvas_def imageB_def)
  qed
  have 3: "itype (interaction t0) = None" by (simp add: t0_def sample_defs)
  show ?thesis
    using 1 2 3 unfolding s1_def s0_def t0_def by blast
qed

section \<open>Deleting objects and the attachment of prompt nodes\<close>

lemma attachmentsResolve_filter:
  assumes "attachmentsResolve c"
  shows "attachmentsResolve
           (c\<lparr>objects := filter (\<lambda>ob. obj_id ob \<noteq> k) (objects c),
              promptNodes := filter (\<lambda>p. attachedToId p \<noteq> k) (promptNodes c)\<rparr>)"
    and "attachmentsResolve
           (c\<lparr>frames := filter (\<lambda>f. obj_id f \<noteq> k) (frames c),
              promptNodes := filter (\<lambda>p. attachedToId p \<noteq> k) (promptNodes c)\<rparr>)"
  using assms by (auto simp: attachmentsResolve_def list_all_iff)

text \<open>The single delete of an image, the delete of a frame and the clearing of the canvas
  keep every attachment resolved.\<close>

lemma handleDeleteSingleObject_resolves:
  assumes "activeCanvas s = Some c" and "attachmentsResolve c"
  shows "\<exists>c'. activeCanvas (handleDeleteSingleObject s k) = Some c' \<and> attachmentsResolve c'"
proof (cases "noActiveCanvasId s")
  case True
  then show ?thesis using assms by (simp add: handleDeleteSingleObject_def)
next
  case False
  have "activeCanvas (handleDeleteSingleObject s k)
          = Some (c\<lparr>objects := filter (\<lambda>ob. obj_id ob \<noteq> k) (objects c),
                    promptNodes := filter (\<lambda>p. attachedToId p \<noteq> k) (promptNodes c)\<rparr>)"
    using False assms(1) by (simp add: handleDeleteSingleObject_def activeCanvas_setActiveCanvas)
  then show ?thesis using attachmentsResolve_filter(1) [OF assms(2)] by simp
qed

lemma handleDeleteFrame_resolves:
  assumes "activeCanvas s = Some c" and "attachmentsResolve c"
  shows "\<exists>c'. activeCanvas (handleDeleteFrame s k) = Some c' \<and> attachmentsResolve c'"
proof -
  have "activeCanvas (handleDeleteFrame s k)
          = Some (c\<lparr>frames := filter (\<lambda>f. obj_id f \<noteq> k) (frames c),
                    promptNodes := filter (\<lambda>p. attachedToId p \<noteq> k) (promptNodes c)\<rparr>)"
    using assms(1) by (simp add: handleDeleteFrame_def activeCanvas_setActiveCanvas)
  then show ?thesis using attachmentsResolve_filter(2) [OF assms(2)] by simp
qed

lemma handleClearCanvas_resolves:
  assumes "activeCanvas s = Some c" and "attachmentsResolve c"
  shows "\<exists>c'. activeCanvas (handleClearCanvas s) = Some c' \<and> attachmentsResolve c'"
proof (cases "noActiveCanvasId s")
  case True
  then show ?thesis using assms by (simp add: handleClearCanvas_def)
next
  case False
  have "activeCanvas (handleClearCanvas s) = Some (c\<lparr>objects := [], frames := [], promptNodes := []\<rparr>)"
    using False assms(1) by (simp add: handleClearCanvas_def activeCanvas_setActiveCanvas)
  then show ?thesis by (simp add: attachmentsResolve_def)
qed


section \<open>Pointer-down on a prompt node\<close>

lemma node_pointer_down_only_selects:
  assumes "startsWith ident ''prompt-node-''"
  shows "handleInteractionStart s ident e Move
           = (case activeCanvas s of None \<Rightarrow> s | Some ac \<Rightarrow> s\<lparr>selectedObjectIds := [ident]\<rparr>)"
proof -
  have nf: "\<not> startsWith ident ''format-frame-''"
    using assms frame_not_node by blast
  show ?thesis
    using assms nf
    by (simp add: handleInteractionStart_def Let_def split: option.splits)
qed

text \<open>
  C4. A pointer-down on a prompt node starts no session and leaves its position alone,
  selects it alone, and promotes its zIndex to one more than the maximum of the node
  band. The code returns before the promotion: on the sample canvas, a pointer-down on
  the first node (zIndex 20000, the band's maximum being 20001) changes the selection and
  nothing else, so the node keeps zIndex 20000; the promotion that the handler holds for
  a node would have given 20002.
\<close>

theorem C4_node_pointer_down_skips_promotion:
  "handleInteractionStart sampleState ''prompt-node-a'' pointerDown Move
     = sampleState\<lparr>selectedObjectIds := [''prompt-node-a'']\<rparr>
   \<and> map node_zIndex (promptNodes sampleCanvas) = [20000, 20001]
   \<and> map node_zIndex (promptNodes (promoteCanvas ''prompt-node-a'' sampleCanvas)) = [20002, 20001]"
proof -
  have p: "startsWith ''prompt-node-a'' ''prompt-node-''" by (simp add: startsWith_def)
  have a: "activeCanvas sampleState = Some sampleCanvas" by (simp add: sample_defs)
  have 1: "handleInteractionStart sampleState ''prompt-node-a'' pointerDown Move
     = sampleState\<lparr>selectedObjectIds := [''prompt-node-a'']\<rparr>"
    using node_pointer_down_only_selects [OF p, of sampleState pointerDown] a by simp
  have 2: "map node_zIndex (promptNodes sampleCanvas) = [20000, 20001]"
    by (simp add: sample_defs)
  have 3: "map node_zIndex (promptNodes (promoteCanvas ''prompt-node-a'' sampleCanvas)) = [20002, 20001]"
    by (simp add: promoteCanvas_def Let_def sample_defs maxOr_def Z_INDEX_BASE_PROMPT_NODE_def)
  show ?thesis using 1 2 3 by blast
qed

section \<open>Frame resize\<close>

text \<open>
  C6. A resize session on a frame, started by a pointer-down on its handle and followed by
  any non-empty sequence of ticks: the frame's width is \<open>max(50, startWidth + dx)\<close> for
  the canvas-space delta \<open>dx\<close> of the last tick, its height is that width divided by the
  aspect ratio taken at session start, which is the frame's own aspect ratio, and the
  width is never below 50.
\<close>

theorem C6_frame_resize_aspect_locked:
  assumes "activeCanvas s0 = Some c0" and "startsWith tid ''format-frame-''"
    and "find (\<lambda>f. obj_id f = tid) (frames c0) = Some f0"
    and "aspectRatio f0 \<noteq> 0" and "distinct (map obj_id (frames c0))"
    and "0 < zoom s0" and "es \<noteq> []"
  shows "\<exists>cN. activeCanvas (runTicks (handleInteractionStart s0 tid e0 ResizeBr) es) = Some cN
          \<and> map obj_id (frames cN) = map obj_id (frames c0)
          \<and> (\<forall>f\<in>set (frames cN). obj_id f = tid \<longrightarrow>
                obj_width f = max 50 (obj_width f0 + (clientX (last es) - clientX e0) / zoom s0)
                \<and> obj_height f = obj_width f / aspectRatio f0
                \<and> aspectRatio f = aspectRatio f0
                \<and> 50 \<le> obj_width f)"
proof -
  define s1 where "s1 = handleInteractionStart s0 tid e0 ResizeBr"
  define dx where "dx = (clientX (last es) - clientX e0) / zoom s0"
  note st = start_frame [OF assms(1-3), of e0, folded s1_def]
  have tid: "targetId (interaction s1) \<noteq> []"
    using st(2) startsWith_nonempty assms(2) by metis
  obtain c1 a sa dy where c1:
    "map obj_id (frames c1) = map obj_id (frames (promoteCanvas tid c0))"
    "map aspectRatio (frames c1) = map aspectRatio (frames (promoteCanvas tid c0))"
    "activeCanvas (runTicks s1 es) = Some (mouseMoveCanvas (interaction s1) ResizeBr dx dy a sa c1)"
    using runTicks_last [OF st(8) st(1) _ tid assms(7)] st(3,7) unfolding dx_def by auto
  define cN where "cN = mouseMoveCanvas (interaction s1) ResizeBr dx dy a sa c1"
  have ids1: "map obj_id (frames c1) = map obj_id (frames c0)"
    and ars1: "map aspectRatio (frames c1) = map aspectRatio (frames c0)"
    using c1(1,2) by (simp_all add: promoteCanvas_frames)
  have fr: "frames cN = map (\<lambda>f. if obj_id f = tid
                 then f\<lparr>obj_width := max 50 (obj_width f0 + dx),
                        obj_height := max 50 (obj_width f0 + dx) / aspectRatio f0\<rparr>
                 else f) (frames c1)"
    unfolding cN_def using mouseMoveCanvas_resize_frames [of "interaction s1" dx dy a sa c1]
      st(2,5,6) assms(2,4) by simp
  have ids: "map obj_id (frames cN) = map obj_id (frames c0)"
    unfolding cN_def using ids1 by (simp add: mouseMoveCanvas_ids)
  have main: "obj_width f = max 50 (obj_width f0 + dx) \<and> obj_height f = obj_width f / aspectRatio f0
          \<and> aspectRatio f = aspectRatio f0 \<and> 50 \<le> obj_width f"
    if f: "f \<in> set (frames cN)" "obj_id f = tid" for f
  proof -
    from f obtain g where g: "g \<in> set (frames c1)" "obj_id g = tid"
      "f = g\<lparr>obj_width := max 50 (obj_width f0 + dx),
              obj_height := max 50 (obj_width f0 + dx) / aspectRatio f0\<rparr>"
      unfolding fr by (auto split: if_splits)
    from pairs_preserved [OF ids1 ars1 g(1)] obtain h where
      h: "h \<in> set (frames c0)" "obj_id h = tid" "aspectRatio h = aspectRatio g"
      using g(2) by auto
    have "h = f0" using find_unique [OF assms(5) assms(3) h(1) h(2)] .
    then have "aspectRatio g = aspectRatio f0" using h(3) by simp
    then show ?thesis using g(3) by simp
  qed
  have act: "activeCanvas (runTicks s1 es) = Some cN"
    using c1(3) by (simp add: cN_def)
  show ?thesis
    using main act ids unfolding dx_def s1_def by blast
qed

text \<open>On the sample canvas: the frame of width 100 and aspect ratio 1, dragged by 50
  screen pixels at zoom 1/2, is 200 wide and 200 high.\<close>

theorem C6_witness:
  "\<exists>cN. activeCanvas (runTicks (handleInteractionStart sampleState ''format-frame-f'' pointerDown ResizeBr)
                         [pointerAt 30 20, pointerAt 60 10]) = Some cN
        \<and> map obj_width (frames cN) = [200] \<and> map obj_height (frames cN) = [200]
        \<and> map aspectRatio (frames cN) = [1]"
proof -
  have h1: "activeCanvas sampleState = Some sampleCanvas" by (simp add: sample_defs)
  have h2: "startsWith ''format-frame-f'' ''format-frame-''" by (simp add: startsWith_def)
  have h3: "find (\<lambda>f. obj_id f = ''format-frame-f'') (frames sampleCanvas) = Some frameF"
    by (simp add: sample_defs)
  have h4: "aspectRatio frameF \<noteq> 0" by (simp add: frameF_def)
  have h5: "distinct (map obj_id (frames sampleCanvas))" by (simp add: sample_defs)
  have h6: "0 < zoom sampleState" by (simp add: sample_defs)
  have h7: "[pointerAt 30 20, pointerAt 60 10] \<noteq> []" by simp
  from C6_frame_resize_aspect_locked [OF h1 h2 h3 h4 h5 h6 h7, of pointerDown]
  obtain cN where cN:
    "activeCanvas (runTicks (handleInteractionStart sampleState ''format-frame-f'' pointerDown ResizeBr)
                         [pointerAt 30 20, pointerAt 60 10]) = Some cN"
    "map obj_id (frames cN) = map obj_id (frames sampleCanvas)"
    "\<forall>f\<in>set (frames cN). obj_id f = ''format-frame-f'' \<longrightarrow>
       obj_width f = max 50 (obj_width frameF
          + (clientX (last [pointerAt 30 20, pointerAt 60 10]) - clientX pointerDown) / zoom sampleState)
       \<and> obj_height f = obj_width f / aspectRatio frameF
       \<and> aspectRatio f = aspectRatio frameF
       \<and> 50 \<le> obj_width f"
    by blast
  from cN(2) obtain f where f: "frames cN = [f]" "obj_id f = ''format-frame-f''"
    by (cases "frames cN") (auto simp: sample_defs)
  from cN(3) f have "obj_width f = 200 \<and> obj_height f = 200 \<and> aspectRatio f = 1"
    by (simp add: sample_defs)
  then show ?thesis using cN(1) f(1) by simp
qed

section \<open>Frame capture selects by bounding box and draws by z-index\<close>

lemma objectsToRender_mset:
  "mset (objectsToRender frame obs) = mset (filter (overlapsFrame frame) obs)"
  by (simp add: objectsToRender_def)

lemma objectsToRender_sorted:
  "sorted (map obj_zIndex (objectsToRender frame obs))"
  by (simp add: objectsToRender_def)

lemma capture_ok:
  assumes "canvasContext w"
    and "list_all (\<lambda>ob. imageLoads w (obj_src ob)) (objectsToRender frame obs)"
  shows "captureFrameContentAsDataURL w frame obs
     = Inr \<lparr>drawn = FillRect ''#101010'' 0 0 (of_int (mathRound (obj_width frame)))
                       (of_int (mathRound (obj_height frame)))
                     # map (drawObject frame) (objectsToRender frame obs),
            cap_width = mathRound (obj_width frame),
            cap_height = mathRound (obj_height frame)\<rparr>"
proof -
  have "find (\<lambda>ob. \<not> imageLoads w (obj_src ob)) (objectsToRender frame obs) = None"
    using assms(2) by (simp add: find_None_iff list_all_iff)
  then show ?thesis using assms(1)
    by (simp add: captureFrameContentAsDataURL_def Let_def)
qed

lemma objectsToRender_stable:
  "filter (\<lambda>ob. obj_zIndex ob = z) (objectsToRender frame obs)
     = filter (\<lambda>ob. obj_zIndex ob = z) (filter (overlapsFrame frame) obs)"
  by (simp add: objectsToRender_def sort_key_stable)

lemma capture_no_context:
  "\<not> canvasContext w \<Longrightarrow>
     captureFrameContentAsDataURL w frame obs = Inl ''Failed to create canvas context for capture.''"
  by (simp add: captureFrameContentAsDataURL_def Let_def)

lemma capture_load_error:
  assumes "canvasContext w"
    and "\<not> list_all (\<lambda>ob. imageLoads w (obj_src ob)) (objectsToRender frame obs)"
  shows "\<exists>msg. captureFrameContentAsDataURL w frame obs = Inl msg"
proof -
  obtain ob where "find (\<lambda>ob. \<not> imageLoads w (obj_src ob)) (objectsToRender frame obs) = Some ob"
    using assms(2) by (cases "find (\<lambda>ob. \<not> imageLoads w (obj_src ob)) (objectsToRender frame obs)")
      (auto simp: find_None_iff list_all_iff)
  then show ?thesis using assms(1)
    by (simp add: captureFrameContentAsDataURL_def Let_def)
qed

text \<open>
  C7. Frame capture selects exactly the images whose axis-aligned bounding box overlaps
  the frame's (each as often as it is in the list), by a test that does not read the
  rotation, and orders them by ascending zIndex, images of one zIndex staying in the
  order of the list. When a context can be had and the selected images load, the capture
  is the background filled over the rounded size of the frame, followed by one draw per
  selected image, in that order: the image's own source, translated to the centre of its
  box relative to the frame's corner, rotated by its rotation in radians, drawn centred
  at its own width and height. Without a context, or when a selected image does not load,
  the capture is an error and nothing is returned.
\<close>

theorem C7_frame_capture_selection_and_order:
  "mset (objectsToRender frame obs)
     = mset (filter (\<lambda>ob. obj_x ob < obj_x frame + obj_width frame
                          \<and> obj_x ob + obj_width ob > obj_x frame
                          \<and> obj_y ob < obj_y frame + obj_height frame
                          \<and> obj_y ob + obj_height ob > obj_y frame) obs)
   \<and> sorted (map obj_zIndex (objectsToRender frame obs))
   \<and> filter (\<lambda>ob. obj_zIndex ob = z) (objectsToRender frame obs)
       = filter (\<lambda>ob. obj_zIndex ob = z)
           (filter (\<lambda>ob. obj_x ob < obj_x frame + obj_width frame
                          \<and> obj_x ob + obj_width ob > obj_x frame
                          \<and> obj_y ob < obj_y frame + obj_height frame
                          \<and> obj_y ob + obj_height ob > obj_y frame) obs)
   \<and> overlapsFrame frame (ob\<lparr>obj_rotation := r\<rparr>) = overlapsFrame frame ob
   \<and> (canvasContext w
        \<and> list_all (\<lambda>ob. imageLoads w (obj_src ob)) (objectsToRender frame obs) \<longrightarrow>
      captureFrameContentAsDataURL w frame obs
        = Inr \<lparr>drawn =
                 FillRect ''#101010'' 0 0 (of_int \<lfloor>obj_width frame + 1 / 2\<rfloor>)
                   (of_int \<lfloor>obj_height frame + 1 / 2\<rfloor>)
                 # map (\<lambda>ob. Draw \<lparr>img_src = obj_src ob,
                                    translate_x = obj_x ob - obj_x frame + obj_width ob / 2,
                                    translate_y = obj_y ob - obj_y frame + obj_height ob / 2,
                                    rotate_rad = obj_rotation ob * pi / 180,
                                    draw_x = - obj_width ob / 2,
                                    draw_y = - obj_height ob / 2,
                                    draw_w = obj_width ob,
                                    draw_h = obj_height ob\<rparr>)
                     (objectsToRender frame obs),
               cap_width = \<lfloor>obj_width frame + 1 / 2\<rfloor>,
               cap_height = \<lfloor>obj_height frame + 1 / 2\<rfloor>\<rparr>)
   \<and> (\<not> canvasContext w \<longrightarrow>
        captureFrameContentAsDataURL w frame obs
          = Inl ''Failed to create canvas context for capture.'')
   \<and> (canvasContext w
        \<and> \<not> list_all (\<lambda>ob. imageLoads w (obj_src ob)) (objectsToRender frame obs) \<longrightarrow>
        (\<exists>msg. captureFrameContentAsDataURL w frame obs = Inl msg))"
proof -
  have f: "overlapsFrame frame = (\<lambda>ob. obj_x ob < obj_x frame + obj_width frame
                          \<and> obj_x ob + obj_width ob > obj_x frame
                          \<and> obj_y ob < obj_y frame + obj_height frame
                          \<and> obj_y ob + obj_height ob > obj_y frame)"
    by (rule ext) (simp add: overlapsFrame_def)
  have d: "drawObject frame = (\<lambda>ob. Draw \<lparr>img_src = obj_src ob,
                                    translate_x = obj_x ob - obj_x frame + obj_width ob / 2,
                                    translate_y = obj_y ob - obj_y frame + obj_height ob / 2,
                                    rotate_rad = obj_rotation ob * pi / 180,
                                    draw_x = - obj_width ob / 2,
                                    draw_y = - obj_height ob / 2,
                                    draw_w = obj_width ob,
                                    draw_h = obj_height ob\<rparr>)"
    by (rule ext) (simp add: drawObject_def Let_def)
  have 1: "mset (objectsToRender frame obs)
     = mset (filter (\<lambda>ob. obj_x ob < obj_x frame + obj_width frame
                          \<and> obj_x ob + obj_width ob > obj_x frame
                          \<and> obj_y ob < obj_y frame + obj_height frame
                          \<and> obj_y ob + obj_height ob > obj_y frame) obs)"
    using objectsToRender_mset [of frame obs] unfolding f .
  have 2: "filter (\<lambda>ob. obj_zIndex ob = z) (objectsToRender frame obs)
       = filter (\<lambda>ob. obj_zIndex ob = z)
           (filter (\<lambda>ob. obj_x ob < obj_x frame + obj_width frame
                          \<and> obj_x ob + obj_width ob > obj_x frame
                          \<and> obj_y ob < obj_y frame + obj_height frame
                          \<and> obj_y ob + obj_height ob > obj_y frame) obs)"
    using objectsToRender_stable [of z frame obs] unfolding f .
  have 3: "overlapsFrame frame (ob\<lparr>obj_rotation := r\<rparr>) = overlapsFrame frame ob"
    by (simp add: overlapsFrame_def)
  have 4: "captureFrameContentAsDataURL w frame obs
        = Inr \<lparr>drawn =
                 FillRect ''#101010'' 0 0 (of_int \<lfloor>obj_width frame + 1 / 2\<rfloor>)
                   (of_int \<lfloor>obj_height frame + 1 / 2\<rfloor>)
                 # map (\<lambda>ob. Draw \<lparr>img_src = obj_src ob,
                                    translate_x = obj_x ob - obj_x frame + obj_width ob / 2,
                                    translate_y = obj_y ob - obj_y frame + obj_height ob / 2,
                                    rotate_rad = obj_rotation ob * pi / 180,
                                    draw_x = - obj_width ob / 2,
                                    draw_y = - obj_height ob / 2,
                                    draw_w = obj_width ob,
                                    draw_h = obj_height ob\<rparr>)
                     (objectsToRender frame obs),
               cap_width = \<lfloor>obj_width frame + 1 / 2\<rfloor>,
               cap_height = \<lfloor>obj_height frame + 1 / 2\<rfloor>\<rparr>"
    if "canvasContext w
        \<and> list_all (\<lambda>ob. imageLoads w (obj_src ob)) (objectsToRender frame obs)"
    using capture_ok [of w frame obs] that unfolding d mathRound_def by simp
  show ?thesis
    using 1 2 3 4 objectsToRender_sorted [of frame obs] capture_no_context [of w frame obs]
      capture_load_error [of w frame obs]
    by blast
qed

text \<open>The frame at (0, 0, 100, 100), image A at (50, 50, 100, 100) with zIndex 1 and image
  B at (200, 200, 50, 50) with zIndex 2: the capture is 100 by 100 and, over the
  background, draws A alone, centred at (100, 100).\<close>

theorem C7_witness:
  "captureFrameContentAsDataURL \<lparr>canvasContext = True, imageLoads = (\<lambda>src. True)\<rparr>
     frameF [imageB, imageA]
     = Inr \<lparr>drawn = [FillRect ''#101010'' 0 0 100 100,
                      Draw \<lparr>img_src = ''a.png'', translate_x = 100, translate_y = 100,
                            rotate_rad = 0, draw_x = - 50, draw_y = - 50,
                            draw_w = 100, draw_h = 100\<rparr>],
            cap_width = 100, cap_height = 100\<rparr>"
proof -
  have sel: "objectsToRender frameF [imageB, imageA] = [imageA]"
    by (simp add: objectsToRender_def overlapsFrame_def sample_defs)
  have h: "canvasContext \<lparr>canvasContext = True, imageLoads = (\<lambda>src. True)\<rparr>
        \<and> list_all (\<lambda>ob. imageLoads \<lparr>canvasContext = True, imageLoads = (\<lambda>src. True)\<rparr> (obj_src ob))
            (objectsToRender frameF [imageB, imageA])"
    by (simp add: sel)
  have fl: "\<lfloor>obj_width frameF + 1 / 2\<rfloor> = 100" "\<lfloor>obj_height frameF + 1 / 2\<rfloor> = 100"
    by (simp_all add: frameF_def)
  from C7_frame_capture_selection_and_order
         [where frame = frameF and obs = "[imageB, imageA]"
            and w = "\<lparr>canvasContext = True, imageLoads = (\<lambda>src. True)\<rparr>"] h
  have "captureFrameContentAsDataURL \<lparr>canvasContext = True, imageLoads = (\<lambda>src. True)\<rparr>
     frameF [imageB, imageA]
        = Inr \<lparr>drawn =
                 FillRect ''#101010'' 0 0 (of_int \<lfloor>obj_width frameF + 1 / 2\<rfloor>)
                   (of_int \<lfloor>obj_height frameF + 1 / 2\<rfloor>)
                 # map (\<lambda>ob. Draw \<lparr>img_src = obj_src ob,
                                    translate_x = obj_x ob - obj_x frameF + obj_width ob / 2,
                                    translate_y = obj_y ob - obj_y frameF + obj_height ob / 2,
                                    rotate_rad = obj_rotation ob * pi / 180,
                                    draw_x = - obj_width ob / 2,
                                    draw_y = - obj_height ob / 2,
                                    draw_w = obj_width ob,
                                    draw_h = obj_height ob\<rparr>)
                     (objectsToRender frameF [imageB, imageA]),
               cap_width = \<lfloor>obj_width frameF + 1 / 2\<rfloor>,
               cap_height = \<lfloor>obj_height frameF + 1 / 2\<rfloor>\<rparr>"
    by blast
  then show ?thesis
    unfolding sel fl by (simp add: imageA_def frameF_def)
qed

section \<open>The cap on concurrent jobs\<close>

text \<open>
  C8. With 10 or more jobs in flight, a submission through any of the three handlers
  (send to a provider, upscale, text to image) is rejected before the handler registers
  a job or reaches its first suspension point: the list of active jobs and the canvases
  are unchanged and nothing is queued. The send of an object of the active canvas sets
  the error of the cap; an upscale and a text-to-image request set a validation error,
  which is that of the cap once their own key and prompt checks have passed.
\<close>

theorem C8_concurrency_cap_rejects:
  assumes "10 \<le> length (activeCombinedJobs s)"
  shows "(\<exists>s'. handleSendObjectToApi s objectId targetApi jobId = Rejected s'
            \<and> activeCombinedJobs s' = activeCombinedJobs s \<and> canvases s' = canvases s
            \<and> (activeCanvas s \<noteq> None \<longrightarrow>
                 error s' = Some ''Maximum of 10 concurrent AI jobs reached.''))
       \<and> (\<exists>s'. handleGenerateTextToImage s jobId = Rejected s'
            \<and> activeCombinedJobs s' = activeCombinedJobs s \<and> canvases s' = canvases s
            \<and> error s' = Some (if trim (textGenPrompt s) = [] \<or> missingKey (apiConfigs s ''seadream'')
                               then ''SeaDream API key must be connected and a prompt provided.''
                               else ''Maximum of 10 concurrent AI jobs reached.''))
       \<and> (\<exists>s'. handleUpscaleSingleImage s objectId jobId = Rejected s'
            \<and> activeCombinedJobs s' = activeCombinedJobs s \<and> canvases s' = canvases s
            \<and> (activeCanvas s \<noteq> None \<longrightarrow>
                 error s' = Some (if missingKey (apiConfigs s ''seadream'')
                                  then ''SeaDream API key must be connected for upscaling.''
                                  else ''Maximum of 10 concurrent AI jobs reached.'')))"
proof -
  have 1: "\<exists>s'. handleSendObjectToApi s objectId targetApi jobId = Rejected s'
            \<and> activeCombinedJobs s' = activeCombinedJobs s \<and> canvases s' = canvases s
            \<and> (activeCanvas s \<noteq> None \<longrightarrow>
                 error s' = Some ''Maximum of 10 concurrent AI jobs reached.'')"
    using assms by (cases "activeCanvas s") (simp_all add: handleSendObjectToApi_def)
  have 2: "\<exists>s'. handleGenerateTextToImage s jobId = Rejected s'
            \<and> activeCombinedJobs s' = activeCombinedJobs s \<and> canvases s' = canvases s
            \<and> error s' = Some (if trim (textGenPrompt s) = [] \<or> missingKey (apiConfigs s ''seadream'')
                               then ''SeaDream API key must be connected and a prompt provided.''
                               else ''Maximum of 10 concurrent AI jobs reached.'')"
    using assms by (simp add: handleGenerateTextToImage_def)
  have 3: "\<exists>s'. handleUpscaleSingleImage s objectId jobId = Rejected s'
            \<and> activeCombinedJobs s' = activeCombinedJobs s \<and> canvases s' = canvases s
            \<and> (activeCanvas s \<noteq> None \<longrightarrow>
                 error s' = Some (if missingKey (apiConfigs s ''seadream'')
                                  then ''SeaDream API key must be connected for upscaling.''
                                  else ''Maximum of 10 concurrent AI jobs reached.''))"
    using assms by (cases "activeCanvas s") (simp_all add: handleUpscaleSingleImage_def)
  show ?thesis using 1 2 3 by blast
qed

text \<open>The sample state with ten jobs in flight, of both providers: an eleventh request for
  the first image, and a text-to-image request, are rejected with the error of the cap.\<close>

theorem C8_witness:
  "(\<exists>s'. handleSendObjectToApi (sampleState\<lparr>activeCombinedJobs := tenJobs\<rparr>) ''img-a'' NB ''job-11''
            = Rejected s'
         \<and> activeCombinedJobs s' = tenJobs
         \<and> error s' = Some ''Maximum of 10 concurrent AI jobs reached.'')
   \<and> (\<exists>s'. handleGenerateTextToImage (sampleState\<lparr>activeCombinedJobs := tenJobs\<rparr>) ''job-11''
            = Rejected s'
         \<and> activeCombinedJobs s' = tenJobs
         \<and> error s' = Some ''Maximum of 10 concurrent AI jobs reached.'')"
proof -
  have h: "10 \<le> length (activeCombinedJobs (sampleState\<lparr>activeCombinedJobs := tenJobs\<rparr>))"
    by (simp add: tenJobs_def)
  have a: "activeCanvas (sampleState\<lparr>activeCombinedJobs := tenJobs\<rparr>) \<noteq> None"
    by (simp add: sample_defs)
  have p: "trim (textGenPrompt (sampleState\<lparr>activeCombinedJobs := tenJobs\<rparr>)) \<noteq> []"
    by (simp add: sample_defs trim_def isSpace_def)
  have k: "\<not> missingKey (apiConfigs (sampleState\<lparr>activeCombinedJobs := tenJobs\<rparr>) ''seadream'')"
    by (simp add: sample_defs missingKey_def)
  from C8_concurrency_cap_rejects [OF h, of "''img-a''" NB "''job-11''"] a p k
  show ?thesis by (simp, blast)
qed

section \<open>Polling: failure is terminal, only silence times out\<close>

lemma pollTime_mono: "n \<le> k \<Longrightarrow> pollTime polls n \<le> pollTime polls k"
  by (induction k) (auto simp: le_Suc_eq)

lemma pollLoop_timeout:
  "\<not> elapsed < POLLING_TIMEOUT \<Longrightarrow> pollLoop m dl polls n elapsed = Inl (TimeoutError (msgTimeout m))"
  by (subst pollLoop.simps) simp

lemma pollLoop_failed:
  assumes "elapsed < POLLING_TIMEOUT" "response (polls n) = OkJson d" "poll_status d = Some ''failed''"
  shows "pollLoop m dl polls n elapsed = Inl (ProviderError (msgFailed m @ orUnknown (poll_error d)))"
  using assms by (subst pollLoop.simps [of m dl polls n elapsed]) simp

lemma pollLoop_next:
  assumes "elapsed < POLLING_TIMEOUT" "\<not> terminalPoll (polls n)"
  shows "pollLoop m dl polls n elapsed
           = pollLoop m dl polls (Suc n) (elapsed + 5000 + latency (polls n))"
proof (cases "response (polls n)")
  case (NotOk httpStatus)
  then show ?thesis using assms(1)
    by (subst pollLoop.simps [of m dl polls n elapsed]) simp
next
  case (OkJson resultData)
  then show ?thesis using assms
    by (subst pollLoop.simps [of m dl polls n elapsed]) (simp add: terminalPoll_def)
next
  case (FetchThrows msg)
  then show ?thesis using assms(2) by (simp add: terminalPoll_def)
qed

lemma pollLoop_terminal:
  assumes "elapsed < POLLING_TIMEOUT" "terminalPoll (polls n)"
  shows "pollLoop m dl polls n elapsed \<noteq> Inl (TimeoutError x)"
proof (cases "response (polls n)")
  case (NotOk httpStatus)
  then show ?thesis using assms(2) by (simp add: terminalPoll_def)
next
  case (OkJson resultData)
  then show ?thesis using assms
    by (subst pollLoop.simps [of m dl polls n elapsed])
       (auto simp: terminalPoll_def split: option.splits Download.splits)
next
  case (FetchThrows msg)
  then show ?thesis using assms(1)
    by (subst pollLoop.simps [of m dl polls n elapsed]) simp
qed

lemma pollLoop_skip:
  assumes "n \<le> k" "\<forall>j. n \<le> j \<and> j < k \<longrightarrow> \<not> terminalPoll (polls j)"
    "pollTime polls k < POLLING_TIMEOUT"
  shows "pollLoop m dl polls n (pollTime polls n) = pollLoop m dl polls k (pollTime polls k)"
  using assms
proof (induction "k - n" arbitrary: n)
  case 0
  then show ?case by simp
next
  case (Suc d)
  have nk: "n < k" using Suc.hyps(2) by simp
  have lt: "pollTime polls n < POLLING_TIMEOUT"
    using pollTime_mono [of n k polls] nk Suc.prems(3) by simp
  have nt: "\<not> terminalPoll (polls n)" using Suc.prems(2) nk by simp
  have "pollLoop m dl polls n (pollTime polls n)
          = pollLoop m dl polls (Suc n) (pollTime polls (Suc n))"
    using pollLoop_next [where polls = polls and n = n and elapsed = "pollTime polls n", OF lt nt]
    by simp
  also have "\<dots> = pollLoop m dl polls k (pollTime polls k)"
  proof (rule Suc.hyps(1))
    show "d = k - Suc n" using Suc.hyps(2) by simp
    show "Suc n \<le> k" using nk by simp
    show "\<forall>j. Suc n \<le> j \<and> j < k \<longrightarrow> \<not> terminalPoll (polls j)" using Suc.prems(2) by simp
    show "pollTime polls k < POLLING_TIMEOUT" using Suc.prems(3) .
  qed
  finally show ?case .
qed

lemma pollLoop_timeout_iff:
  "(\<exists>x. pollLoop m dl polls n (pollTime polls n) = Inl (TimeoutError x))
     \<longleftrightarrow> (\<forall>k\<ge>n. pollTime polls k < POLLING_TIMEOUT \<longrightarrow> \<not> terminalPoll (polls k))"
proof (induction "POLLING_TIMEOUT - pollTime polls n" arbitrary: n rule: less_induct)
  case less
  show ?case
  proof (cases "pollTime polls n < POLLING_TIMEOUT")
    case False
    then have "\<forall>k\<ge>n. \<not> pollTime polls k < POLLING_TIMEOUT"
      using pollTime_mono [of n _ polls] by (meson le_less_trans)
    then show ?thesis using pollLoop_timeout [OF False] by simp
  next
    case True
    show ?thesis
    proof (cases "terminalPoll (polls n)")
      case t: True
      then show ?thesis using pollLoop_terminal [where polls = polls and n = n and elapsed = "pollTime polls n", OF True t] True by blast
    next
      case f: False
      have dec: "POLLING_TIMEOUT - pollTime polls (Suc n) < POLLING_TIMEOUT - pollTime polls n"
        using True by simp
      have eq: "pollLoop m dl polls n (pollTime polls n)
                  = pollLoop m dl polls (Suc n) (pollTime polls (Suc n))"
        using pollLoop_next [where polls = polls and n = n and elapsed = "pollTime polls n", OF True f] by simp
      have "(\<forall>k\<ge>n. pollTime polls k < POLLING_TIMEOUT \<longrightarrow> \<not> terminalPoll (polls k))
             \<longleftrightarrow> (\<forall>k\<ge>Suc n. pollTime polls k < POLLING_TIMEOUT \<longrightarrow> \<not> terminalPoll (polls k))"
        using f by (metis Suc_leD Suc_leI le_neq_implies_less)
      then show ?thesis using less [OF dec] eq by simp
    qed
  qed
qed

lemma pollLoop_first_failed:
  assumes "\<forall>j<k. \<not> terminalPoll (polls j)" "pollTime polls k < POLLING_TIMEOUT"
    "response (polls k) = OkJson d" "poll_status d = Some ''failed''"
  shows "pollLoop m dl polls 0 0 = Inl (ProviderError (msgFailed m @ orUnknown (poll_error d)))"
proof -
  have "pollLoop m dl polls 0 (pollTime polls 0) = pollLoop m dl polls k (pollTime polls k)"
    using pollLoop_skip [of 0 k polls m dl] assms(1,2) by simp
  then show ?thesis
    using pollLoop_failed [where polls = polls and n = k and elapsed = "pollTime polls k", OF assms(2-4)]
    by simp
qed

text \<open>
  C9. In both polling loops, a poll whose response is ok and has status \<open>failed\<close> ends the
  run at once with a ProviderError that carries the provider's detail, on the first poll
  as on any later poll that starts within the budget after polls without a terminal
  outcome. The run ends with a TimeoutError exactly when no poll that starts within the
  180000 ms budget has a terminal outcome; responses that are not ok are retried. Polls
  are 5000 ms apart or more.
\<close>

theorem C9_failed_status_is_provider_error_not_timeout:
  "((\<forall>j<k. \<not> terminalPoll (polls j)) \<and> pollTime polls k < POLLING_TIMEOUT
      \<and> response (polls k) = OkJson d \<and> poll_status d = Some ''failed'' \<longrightarrow>
      editImageWithSeaDream_polling dl polls
        = Inl (ProviderError (''SeaDream task failed: '' @ orUnknown (poll_error d)))
      \<and> generateImageWithSeaDream_polling dl polls
        = Inl (ProviderError (''SeaDream text-gen task failed: '' @ orUnknown (poll_error d))))
   \<and> (response (polls 0) = OkJson d \<and> poll_status d = Some ''failed'' \<longrightarrow>
      editImageWithSeaDream_polling dl polls
        = Inl (ProviderError (''SeaDream task failed: '' @ orUnknown (poll_error d)))
      \<and> generateImageWithSeaDream_polling dl polls
        = Inl (ProviderError (''SeaDream text-gen task failed: '' @ orUnknown (poll_error d))))
   \<and> ((\<exists>x. editImageWithSeaDream_polling dl polls = Inl (TimeoutError x))
        \<longleftrightarrow> (\<forall>n. pollTime polls n < POLLING_TIMEOUT \<longrightarrow> \<not> terminalPoll (polls n)))
   \<and> ((\<exists>x. generateImageWithSeaDream_polling dl polls = Inl (TimeoutError x))
        \<longleftrightarrow> (\<forall>n. pollTime polls n < POLLING_TIMEOUT \<longrightarrow> \<not> terminalPoll (polls n)))
   \<and> pollTime polls n + 5000 \<le> pollTime polls (Suc n)
   \<and> POLLING_TIMEOUT = 180000"
proof -
  have gen: "pollLoop m dl polls 0 0 = Inl (ProviderError (msgFailed m @ orUnknown (poll_error d)))"
    if "(\<forall>j<k. \<not> terminalPoll (polls j)) \<and> pollTime polls k < POLLING_TIMEOUT
      \<and> response (polls k) = OkJson d \<and> poll_status d = Some ''failed''" for m k
    using pollLoop_first_failed [of k polls d m dl] that by blast
  have first: "pollLoop m dl polls 0 0 = Inl (ProviderError (msgFailed m @ orUnknown (poll_error d)))"
    if "response (polls 0) = OkJson d \<and> poll_status d = Some ''failed''" for m
    using gen [of 0 m] that by (simp add: POLLING_TIMEOUT_def)
  have tmo: "(\<exists>x. pollLoop m dl polls 0 0 = Inl (TimeoutError x))
        \<longleftrightarrow> (\<forall>n. pollTime polls n < POLLING_TIMEOUT \<longrightarrow> \<not> terminalPoll (polls n))" for m
    using pollLoop_timeout_iff [of m dl polls 0] by simp
  have ed: "(\<exists>x. editImageWithSeaDream_polling dl polls = Inl (TimeoutError x))
              \<longleftrightarrow> (\<exists>x. pollLoop editMessages dl polls 0 0 = Inl (TimeoutError x))"
    by (auto simp: editImageWithSeaDream_polling_def split: sum.splits)
  have edf: "editImageWithSeaDream_polling dl polls = Inl e"
    if "pollLoop editMessages dl polls 0 0 = Inl e" for e
    using that by (simp add: editImageWithSeaDream_polling_def)
  show ?thesis
    using gen [of k editMessages] gen [of k generateMessages]
      first [of editMessages] first [of generateMessages]
      tmo [of editMessages] tmo [of generateMessages] ed edf
    by (simp add: generateImageWithSeaDream_polling_def editMessages_def generateMessages_def
        POLLING_TIMEOUT_def)
qed

text \<open>A provider that fails on the first poll gives a ProviderError with its detail; one
  that is never ok gives a TimeoutError.\<close>

theorem C9_witness:
  "editImageWithSeaDream_polling dataUriOf failingProvider
     = Inl (ProviderError ''SeaDream task failed: content policy'')
   \<and> generateImageWithSeaDream_polling dataUriOf failingProvider
     = Inl (ProviderError ''SeaDream text-gen task failed: content policy'')
   \<and> (\<exists>x. editImageWithSeaDream_polling dataUriOf unavailableProvider = Inl (TimeoutError x))
   \<and> (\<exists>x. generateImageWithSeaDream_polling dataUriOf unavailableProvider = Inl (TimeoutError x))"
proof -
  define d where "d = \<lparr>poll_status = Some ''failed'', poll_output = None,
                         poll_error = Some ''content policy''\<rparr>"
  have h: "response (failingProvider 0) = OkJson d \<and> poll_status d = Some ''failed''"
    by (simp add: failingProvider_def d_def)
  have u: "\<forall>n. pollTime unavailableProvider n < POLLING_TIMEOUT \<longrightarrow> \<not> terminalPoll (unavailableProvider n)"
    by (simp add: terminalPoll_def unavailableProvider_def)
  have f: "editImageWithSeaDream_polling dataUriOf failingProvider
     = Inl (ProviderError ''SeaDream task failed: content policy'')
   \<and> generateImageWithSeaDream_polling dataUriOf failingProvider
     = Inl (ProviderError ''SeaDream text-gen task failed: content policy'')"
    using C9_failed_status_is_provider_error_not_timeout
            [where polls = failingProvider and d = d and dl = dataUriOf] h
    by (simp add: d_def orUnknown_def)
  have t: "(\<exists>x. editImageWithSeaDream_polling dataUriOf unavailableProvider = Inl (TimeoutError x))
   \<and> (\<exists>x. generateImageWithSeaDream_polling dataUriOf unavailableProvider = Inl (TimeoutError x))"
    using C9_failed_status_is_provider_error_not_timeout
            [where polls = unavailableProvider and dl = dataUriOf] u
    by blast
  show ?thesis using f t by blast
qed

section \<open>The limit of twenty images on import\<close>

lemma showNat_20: "showNat 20 = ''20''"
  by (simp add: showNat.simps)

lemma those_map_the:
  assumes "list_all (\<lambda>x. g x \<noteq> None) xs"
  shows "those (map g xs) = Some (map (\<lambda>x. the (g x)) xs)"
  using assms by (induction xs) auto

lemma those_rejected:
  assumes "\<not> list_all (\<lambda>f. file_natural f \<noteq> None) fs"
  shows "those (map (loadImageObject z) fs) = None"
  using assms
proof (induction fs)
  case Nil
  then show ?case by simp
next
  case (Cons f fs)
  then show ?case
    by (cases "file_natural f") (auto simp: loadImageObject_def split: option.splits)
qed

text \<open>The object that \<open>onload\<close> builds and the handler then positions, as a function of
  its file and its index among the kept files.\<close>

lemma positioned_fields:
  assumes "file_natural f = Some (w, h)"
  shows "positionObject center m (i, the (loadImageObject z f))
     = \<lparr>obj_id = file_uuid f, obj_src = file_url f,
        obj_x = pt_x center - 150 / 2 + (real i - (real m - 1) / 2) * 30,
        obj_y = pt_y center - (150 / (w / h)) / 2 + (real i - (real m - 1) / 2) * 30,
        obj_width = 150, obj_height = 150 / (w / h), obj_rotation = 0,
        obj_zIndex = z + int (file_loadRank f), isAiResult = None\<rparr>"
  using assms by (simp add: positionObject_def loadImageObject_def)

text \<open>
  Three imports that a limit of twenty, enforced on every import, does not describe.
  One chosen file that does not decode, on the
  sample canvas of two images: one image fits, nothing is added, no error is surfaced. An
  import of no file into a canvas that holds twenty images: no error is surfaced. One
  file chosen while the canvas holds nineteen images, a twentieth image arriving on the
  canvas before the file has decoded: the import still appends its image, the
  twenty-first.
\<close>

theorem C10_counterexample:
  "handleAddImagesToCanvas sampleState (Some [brokenFile])
     = ImportAwaiting (sampleState\<lparr>error := None\<rparr>) [brokenFile]
   \<and> handleAddImagesToCanvas_resume sampleState [brokenFile] (sampleState\<lparr>error := None\<rparr>)
     = sampleState\<lparr>error := None\<rparr>
   \<and> activeCanvas sampleState = Some sampleCanvas
   \<and> length (objects sampleCanvas) = 2
   \<and> min (length [brokenFile]) (20 - length (objects sampleCanvas)) = 1
   \<and> handleAddImagesToCanvas crowdedState (Some []) = ImportReturned crowdedState
   \<and> activeCanvas crowdedState = Some crowdedCanvas
   \<and> length (objects crowdedCanvas) = 20
   \<and> error crowdedState = None
   \<and> handleAddImagesToCanvas almostFullState (Some [pngFile])
     = ImportAwaiting (almostFullState\<lparr>error := None\<rparr>) [pngFile]
   \<and> map_option (\<lambda>c. length (objects c))
        (activeCanvas (handleAddImagesToCanvas_resume almostFullState [pngFile] crowdedState))
     = Some 21"
proof -
  have 1: "handleAddImagesToCanvas sampleState (Some [brokenFile])
     = ImportAwaiting (sampleState\<lparr>error := None\<rparr>) [brokenFile]"
    by (simp add: handleAddImagesToCanvas_def Let_def sample_defs)
  have 2: "handleAddImagesToCanvas_resume sampleState [brokenFile] (sampleState\<lparr>error := None\<rparr>)
     = sampleState\<lparr>error := None\<rparr>"
    by (simp add: handleAddImagesToCanvas_resume_def Let_def sample_defs brokenFile_def
        loadImageObject_def)
  have 3: "activeCanvas sampleState = Some sampleCanvas \<and> length (objects sampleCanvas) = 2
     \<and> min (length [brokenFile]) (20 - length (objects sampleCanvas)) = 1"
    by (simp add: sample_defs)
  have 4: "handleAddImagesToCanvas crowdedState (Some []) = ImportReturned crowdedState
     \<and> activeCanvas crowdedState = Some crowdedCanvas
     \<and> length (objects crowdedCanvas) = 20 \<and> error crowdedState = None"
    by (simp add: handleAddImagesToCanvas_def crowdedState_def crowdedCanvas_def sample_defs)
  have a: "activeCanvas almostFullState
             = Some (crowdedCanvas\<lparr>objects := butlast (objects crowdedCanvas)\<rparr>)"
    by (simp add: almostFullState_def crowdedCanvas_def sample_defs)
  have 5: "handleAddImagesToCanvas almostFullState (Some [pngFile])
     = ImportAwaiting (almostFullState\<lparr>error := None\<rparr>) [pngFile]"
    by (simp add: handleAddImagesToCanvas_def Let_def a crowdedCanvas_def)
  have 6: "map_option (\<lambda>c. length (objects c))
        (activeCanvas (handleAddImagesToCanvas_resume almostFullState [pngFile] crowdedState))
     = Some 21"
    by (simp add: handleAddImagesToCanvas_resume_def Let_def a loadImageObject_def pngFile_def)
       (simp add: activeCanvas_def almostFullState_def crowdedState_def crowdedCanvas_def
          sampleState_def sampleCanvas_def)
  show ?thesis using 1 2 3 4 5 6 by blast
qed

text \<open>
  C10 (amended). Let \<open>n\<close> be the number of images on the active canvas of the render in
  which the files are chosen. Choosing at least one file when \<open>n\<close> is twenty or more ends
  the import at once with the error "Canvas image limit of 20 reached.". When \<open>n\<close> is below
  twenty the handler keeps the first \<open>min k (20 - n)\<close> of the \<open>k\<close> chosen files, in order,
  sets the error "Only (20 - n) were added to reach the limit of 20." exactly when it
  drops a file (and clears the error otherwise), and awaits the images of the kept files.
  When every kept file has decoded, to positive natural sizes, the commit appends to the
  canvas of that id, in whatever state \<open>latest\<close> it then is, one image for each kept file,
  in the order of the files: with the file's id and object URL, width 150, the height of
  the file's aspect ratio, no rotation, a z-index above the images of the first render
  by the rank of the file's decoding, cascaded by 30 units around the centre of the
  viewport. When a kept file does not decode the state stays as it is. Choosing no file
  changes nothing.
\<close>

theorem C10_import_limit_of_twenty:
  assumes "activeCanvas s = Some c"
  shows
    "(files \<noteq> [] \<and> 20 \<le> length (objects c) \<longrightarrow>
        handleAddImagesToCanvas s (Some files)
          = ImportReturned (s\<lparr>error := Some ''Canvas image limit of 20 reached.''\<rparr>))
     \<and> (files \<noteq> [] \<and> length (objects c) < 20 \<longrightarrow>
        handleAddImagesToCanvas s (Some files)
          = ImportAwaiting
              (s\<lparr>error :=
                   (if 20 - length (objects c) < length files
                    then Some (''Only '' @ showNat (20 - length (objects c))
                               @ '' were added to reach the limit of 20.'')
                    else None)\<rparr>)
              (take (20 - length (objects c)) files)
        \<and> length (take (20 - length (objects c)) files)
            = min (length files) (20 - length (objects c)))
     \<and> (list_all (\<lambda>f. case file_natural f of Some (w, h) \<Rightarrow> 0 < w \<and> 0 < h | None \<Rightarrow> False) kept
        \<longrightarrow>
        (let center =
               (case viewport latest of
                  Some viewportBounds \<Rightarrow>
                    \<lparr>pt_x = (dom_left viewportBounds + dom_width viewportBounds / 2
                             - dom_left viewportBounds - pan_x s) / zoom s,
                     pt_y = (dom_top viewportBounds + dom_height viewportBounds / 2
                             - dom_top viewportBounds - pan_y s) / zoom s\<rparr>
                | None \<Rightarrow> \<lparr>pt_x = 0, pt_y = 0\<rparr>);
             zIndexCounter =
               (if 0 < length (objects c) then maxOr 0 (map obj_zIndex (objects c)) + 1 else 0)
         in \<exists>added.
              handleAddImagesToCanvas_resume s kept latest
                = latest\<lparr>canvases :=
                           map (\<lambda>d. if Some (canvas_id d) = activeCanvasId s
                                     then d\<lparr>objects := objects d @ added\<rparr> else d)
                             (canvases latest)\<rparr>
              \<and> length added = length kept
              \<and> (\<forall>i<length kept.
                    added ! i
                      = \<lparr>obj_id = file_uuid (kept ! i), obj_src = file_url (kept ! i),
                         obj_x = pt_x center - 150 / 2
                                 + (real i - (real (length kept) - 1) / 2) * 30,
                         obj_y = pt_y center
                                 - (150 / (fst (the (file_natural (kept ! i)))
                                           / snd (the (file_natural (kept ! i))))) / 2
                                 + (real i - (real (length kept) - 1) / 2) * 30,
                         obj_width = 150,
                         obj_height = 150 / (fst (the (file_natural (kept ! i)))
                                             / snd (the (file_natural (kept ! i)))),
                         obj_rotation = 0,
                         obj_zIndex = zIndexCounter + int (file_loadRank (kept ! i)),
                         isAiResult = None\<rparr>)))
     \<and> (\<not> list_all (\<lambda>f. file_natural f \<noteq> None) kept \<longrightarrow>
        handleAddImagesToCanvas_resume s kept latest = latest)
     \<and> handleAddImagesToCanvas s (Some []) = ImportReturned s
     \<and> handleAddImagesToCanvas s None = ImportReturned s"
proof -
  let ?n = "length (objects c)"
  have A: "files \<noteq> [] \<and> 20 \<le> ?n \<longrightarrow>
        handleAddImagesToCanvas s (Some files)
          = ImportReturned (s\<lparr>error := Some ''Canvas image limit of 20 reached.''\<rparr>)"
    using assms by (simp add: handleAddImagesToCanvas_def Let_def showNat_20)
  have B: "files \<noteq> [] \<and> ?n < 20 \<longrightarrow>
        handleAddImagesToCanvas s (Some files)
          = ImportAwaiting
              (s\<lparr>error :=
                   (if 20 - ?n < length files
                    then Some (''Only '' @ showNat (20 - ?n)
                               @ '' were added to reach the limit of 20.'')
                    else None)\<rparr>)
              (take (20 - ?n) files)
        \<and> length (take (20 - ?n) files) = min (length files) (20 - ?n)"
  proof (intro impI)
    assume h: "files \<noteq> [] \<and> ?n < 20"
    have n: "nat (20 - int ?n) = 20 - ?n"
      by simp
    have m: "20 - ?n < length files \<Longrightarrow> min (length files) (20 - ?n) = 20 - ?n"
      by simp
    show "handleAddImagesToCanvas s (Some files)
          = ImportAwaiting
              (s\<lparr>error :=
                   (if 20 - ?n < length files
                    then Some (''Only '' @ showNat (20 - ?n)
                               @ '' were added to reach the limit of 20.'')
                    else None)\<rparr>)
              (take (20 - ?n) files)
        \<and> length (take (20 - ?n) files) = min (length files) (20 - ?n)"
      using assms h by (auto simp add: handleAddImagesToCanvas_def Let_def showNat_20 n m)
  qed
  have C: "list_all (\<lambda>f. case file_natural f of Some (w, h) \<Rightarrow> 0 < w \<and> 0 < h | None \<Rightarrow> False) kept
        \<longrightarrow>
        (let center =
               (case viewport latest of
                  Some viewportBounds \<Rightarrow>
                    \<lparr>pt_x = (dom_left viewportBounds + dom_width viewportBounds / 2
                             - dom_left viewportBounds - pan_x s) / zoom s,
                     pt_y = (dom_top viewportBounds + dom_height viewportBounds / 2
                             - dom_top viewportBounds - pan_y s) / zoom s\<rparr>
                | None \<Rightarrow> \<lparr>pt_x = 0, pt_y = 0\<rparr>);
             zIndexCounter =
               (if 0 < length (objects c) then maxOr 0 (map obj_zIndex (objects c)) + 1 else 0)
         in \<exists>added.
              handleAddImagesToCanvas_resume s kept latest
                = latest\<lparr>canvases :=
                           map (\<lambda>d. if Some (canvas_id d) = activeCanvasId s
                                     then d\<lparr>objects := objects d @ added\<rparr> else d)
                             (canvases latest)\<rparr>
              \<and> length added = length kept
              \<and> (\<forall>i<length kept.
                    added ! i
                      = \<lparr>obj_id = file_uuid (kept ! i), obj_src = file_url (kept ! i),
                         obj_x = pt_x center - 150 / 2
                                 + (real i - (real (length kept) - 1) / 2) * 30,
                         obj_y = pt_y center
                                 - (150 / (fst (the (file_natural (kept ! i)))
                                           / snd (the (file_natural (kept ! i))))) / 2
                                 + (real i - (real (length kept) - 1) / 2) * 30,
                         obj_width = 150,
                         obj_height = 150 / (fst (the (file_natural (kept ! i)))
                                             / snd (the (file_natural (kept ! i)))),
                         obj_rotation = 0,
                         obj_zIndex = zIndexCounter + int (file_loadRank (kept ! i)),
                         isAiResult = None\<rparr>))"
  proof (intro impI)
    assume ok: "list_all (\<lambda>f. case file_natural f of Some (w, h) \<Rightarrow> 0 < w \<and> 0 < h | None \<Rightarrow> False) kept"
    define center where "center =
               (case viewport latest of
                  Some viewportBounds \<Rightarrow>
                    \<lparr>pt_x = (dom_left viewportBounds + dom_width viewportBounds / 2
                             - dom_left viewportBounds - pan_x s) / zoom s,
                     pt_y = (dom_top viewportBounds + dom_height viewportBounds / 2
                             - dom_top viewportBounds - pan_y s) / zoom s\<rparr>
                | None \<Rightarrow> \<lparr>pt_x = 0, pt_y = 0\<rparr>)"
    define z where "z =
               (if 0 < length (objects c) then maxOr 0 (map obj_zIndex (objects c)) + 1 else 0)"
    define added where "added =
      map (positionObject center (length kept))
        (enumerate 0 (map (\<lambda>f. the (loadImageObject z f)) kept))"
    have dec: "list_all (\<lambda>f. loadImageObject z f \<noteq> None) kept"
      using ok by (auto simp: list_all_iff loadImageObject_def split: option.splits)
    have th: "those (map (loadImageObject z) kept)
                = Some (map (\<lambda>f. the (loadImageObject z f)) kept)"
      using dec by (rule those_map_the)
    have ctr: "(case viewport latest of
                  Some viewportBounds \<Rightarrow>
                    getCanvasCoordinates (s\<lparr>viewport := viewport latest\<rparr>)
                      (dom_left viewportBounds + dom_width viewportBounds / 2)
                      (dom_top viewportBounds + dom_height viewportBounds / 2)
                | None \<Rightarrow> \<lparr>pt_x = 0, pt_y = 0\<rparr>) = center"
      by (simp add: center_def getCanvasCoordinates_def split: option.splits)
    have res: "handleAddImagesToCanvas_resume s kept latest
                = latest\<lparr>canvases :=
                           map (\<lambda>d. if Some (canvas_id d) = activeCanvasId s
                                     then d\<lparr>objects := objects d @ added\<rparr> else d)
                             (canvases latest)\<rparr>"
    proof -
      have zn: "(if length (objects c) > 0 then maxOr 0 (map obj_zIndex (objects c)) + 1
                 else Z_INDEX_BASE_IMAGE) = z"
        by (simp add: z_def Z_INDEX_BASE_IMAGE_def)
      show ?thesis
        unfolding handleAddImagesToCanvas_resume_def assms option.case Let_def zn th ctr
        by (simp add: added_def)
    qed
    have len: "length added = length kept"
      by (simp add: added_def)
    have nth: "added ! i
                 = \<lparr>obj_id = file_uuid (kept ! i), obj_src = file_url (kept ! i),
                    obj_x = pt_x center - 150 / 2
                            + (real i - (real (length kept) - 1) / 2) * 30,
                    obj_y = pt_y center
                            - (150 / (fst (the (file_natural (kept ! i)))
                                      / snd (the (file_natural (kept ! i))))) / 2
                            + (real i - (real (length kept) - 1) / 2) * 30,
                    obj_width = 150,
                    obj_height = 150 / (fst (the (file_natural (kept ! i)))
                                        / snd (the (file_natural (kept ! i)))),
                    obj_rotation = 0,
                    obj_zIndex = z + int (file_loadRank (kept ! i)),
                    isAiResult = None\<rparr>" if i: "i < length kept" for i
    proof -
      from ok i obtain w h where wh: "file_natural (kept ! i) = Some (w, h)"
        by (auto simp: list_all_length split: option.splits)
      have "added ! i = positionObject center (length kept) (i, the (loadImageObject z (kept ! i)))"
        using i by (simp add: added_def nth_enumerate_eq)
      then show ?thesis
        using positioned_fields [OF wh, of center "length kept" i z] wh by simp
    qed
    show "let center =
               (case viewport latest of
                  Some viewportBounds \<Rightarrow>
                    \<lparr>pt_x = (dom_left viewportBounds + dom_width viewportBounds / 2
                             - dom_left viewportBounds - pan_x s) / zoom s,
                     pt_y = (dom_top viewportBounds + dom_height viewportBounds / 2
                             - dom_top viewportBounds - pan_y s) / zoom s\<rparr>
                | None \<Rightarrow> \<lparr>pt_x = 0, pt_y = 0\<rparr>);
             zIndexCounter =
               (if 0 < length (objects c) then maxOr 0 (map obj_zIndex (objects c)) + 1 else 0)
         in \<exists>added.
              handleAddImagesToCanvas_resume s kept latest
                = latest\<lparr>canvases :=
                           map (\<lambda>d. if Some (canvas_id d) = activeCanvasId s
                                     then d\<lparr>objects := objects d @ added\<rparr> else d)
                             (canvases latest)\<rparr>
              \<and> length added = length kept
              \<and> (\<forall>i<length kept.
                    added ! i
                      = \<lparr>obj_id = file_uuid (kept ! i), obj_src = file_url (kept ! i),
                         obj_x = pt_x center - 150 / 2
                                 + (real i - (real (length kept) - 1) / 2) * 30,
                         obj_y = pt_y center
                                 - (150 / (fst (the (file_natural (kept ! i)))
                                           / snd (the (file_natural (kept ! i))))) / 2
                                 + (real i - (real (length kept) - 1) / 2) * 30,
                         obj_width = 150,
                         obj_height = 150 / (fst (the (file_natural (kept ! i)))
                                             / snd (the (file_natural (kept ! i)))),
                         obj_rotation = 0,
                         obj_zIndex = zIndexCounter + int (file_loadRank (kept ! i)),
                         isAiResult = None\<rparr>)"
      unfolding Let_def center_def [symmetric] z_def [symmetric]
      using res len nth by blast
  qed
  have D: "\<not> list_all (\<lambda>f. file_natural f \<noteq> None) kept \<longrightarrow>
        handleAddImagesToCanvas_resume s kept latest = latest"
    using assms by (simp add: handleAddImagesToCanvas_resume_def Let_def those_rejected)
  have E: "handleAddImagesToCanvas s (Some []) = ImportReturned s
     \<and> handleAddImagesToCanvas s None = ImportReturned s"
    using assms by (simp add: handleAddImagesToCanvas_def)
  show ?thesis
    using A B C D E by blast
qed

text \<open>
  One 400 by 200 file imported into the sample canvas of two images, which nothing else
  changes meanwhile: the import awaits the file and then appends its image, 150 by 75, at
  z-index 3, centred on the canvas point (1000, 1000) under the middle of the viewport.
  The same file chosen for the canvas that holds twenty images: the import ends at once
  with the error. That file and a second one chosen for the canvas that holds nineteen:
  the first is kept, the second dropped, with the error.
\<close>

theorem C10_witness:
  "activeCanvas sampleState = Some sampleCanvas
   \<and> handleAddImagesToCanvas sampleState (Some [pngFile])
       = ImportAwaiting (sampleState\<lparr>error := None\<rparr>) [pngFile]
   \<and> handleAddImagesToCanvas_resume sampleState [pngFile] (sampleState\<lparr>error := None\<rparr>)
       = sampleState\<lparr>error := None,
           canvases :=
             [sampleCanvas\<lparr>objects :=
                [imageA, imageB,
                 \<lparr>obj_id = ''uuid-1'', obj_src = ''blob:1'', obj_x = 925, obj_y = 1925 / 2,
                  obj_width = 150, obj_height = 75, obj_rotation = 0, obj_zIndex = 3,
                  isAiResult = None\<rparr>]\<rparr>]\<rparr>
   \<and> handleAddImagesToCanvas crowdedState (Some [pngFile])
       = ImportReturned (crowdedState\<lparr>error := Some ''Canvas image limit of 20 reached.''\<rparr>)
   \<and> handleAddImagesToCanvas almostFullState (Some [pngFile, brokenFile])
       = ImportAwaiting
           (almostFullState\<lparr>error := Some ''Only 1 were added to reach the limit of 20.''\<rparr>)
           [pngFile]"
proof -
  have ac: "activeCanvas sampleState = Some sampleCanvas"
    by (simp add: sample_defs)
  have n: "length (objects sampleCanvas) = 2"
    by (simp add: sample_defs)
  note inst = C10_import_limit_of_twenty [OF ac, of "[pngFile]" "[pngFile]"
      "sampleState\<lparr>error := None\<rparr>"]
  have 1: "handleAddImagesToCanvas sampleState (Some [pngFile])
       = ImportAwaiting (sampleState\<lparr>error := None\<rparr>) [pngFile]"
    using inst n by simp
  have ok: "list_all (\<lambda>f. case file_natural f of Some (w, h) \<Rightarrow> 0 < w \<and> 0 < h | None \<Rightarrow> False)
              [pngFile]"
    by (simp add: pngFile_def)
  have z: "(if 0 < length (objects sampleCanvas)
            then maxOr 0 (map obj_zIndex (objects sampleCanvas)) + 1 else 0) = 3"
    by (simp add: sample_defs maxOr_def)
  have ctr: "(case viewport (sampleState\<lparr>error := None\<rparr>) of
                  Some viewportBounds \<Rightarrow>
                    \<lparr>pt_x = (dom_left viewportBounds + dom_width viewportBounds / 2
                             - dom_left viewportBounds - pan_x sampleState) / zoom sampleState,
                     pt_y = (dom_top viewportBounds + dom_height viewportBounds / 2
                             - dom_top viewportBounds - pan_y sampleState) / zoom sampleState\<rparr>
                | None \<Rightarrow> \<lparr>pt_x = 0, pt_y = 0\<rparr>) = \<lparr>pt_x = 1000, pt_y = 1000\<rparr>"
    by (simp add: sampleState_def)
  from inst ok obtain added where
    r: "handleAddImagesToCanvas_resume sampleState [pngFile] (sampleState\<lparr>error := None\<rparr>)
          = sampleState\<lparr>error := None,
              canvases :=
                map (\<lambda>d. if Some (canvas_id d) = activeCanvasId sampleState
                          then d\<lparr>objects := objects d @ added\<rparr> else d)
                  (canvases (sampleState\<lparr>error := None\<rparr>))\<rparr>"
    and l: "length added = 1"
    and a: "added ! 0
              = \<lparr>obj_id = ''uuid-1'', obj_src = ''blob:1'', obj_x = 925, obj_y = 1925 / 2,
                 obj_width = 150, obj_height = 75, obj_rotation = 0, obj_zIndex = 3,
                 isAiResult = None\<rparr>"
    unfolding Let_def z ctr by (auto simp add: pngFile_def)
  from l a have added: "added
              = [\<lparr>obj_id = ''uuid-1'', obj_src = ''blob:1'', obj_x = 925, obj_y = 1925 / 2,
                 obj_width = 150, obj_height = 75, obj_rotation = 0, obj_zIndex = 3,
                 isAiResult = None\<rparr>]"
    by (cases added) auto
  have 2: "handleAddImagesToCanvas_resume sampleState [pngFile] (sampleState\<lparr>error := None\<rparr>)
       = sampleState\<lparr>error := None,
           canvases :=
             [sampleCanvas\<lparr>objects :=
                [imageA, imageB,
                 \<lparr>obj_id = ''uuid-1'', obj_src = ''blob:1'', obj_x = 925, obj_y = 1925 / 2,
                  obj_width = 150, obj_height = 75, obj_rotation = 0, obj_zIndex = 3,
                  isAiResult = None\<rparr>]\<rparr>]\<rparr>"
    unfolding r added by (simp add: sampleState_def sampleCanvas_def)
  have 3: "handleAddImagesToCanvas crowdedState (Some [pngFile])
       = ImportReturned (crowdedState\<lparr>error := Some ''Canvas image limit of 20 reached.''\<rparr>)"
    by (simp add: handleAddImagesToCanvas_def Let_def showNat_20 crowdedState_def
        crowdedCanvas_def sample_defs)
  have na: "activeCanvas almostFullState
             = Some (crowdedCanvas\<lparr>objects := butlast (objects crowdedCanvas)\<rparr>)"
    by (simp add: almostFullState_def crowdedCanvas_def sample_defs)
  have 4: "handleAddImagesToCanvas almostFullState (Some [pngFile, brokenFile])
       = ImportAwaiting
           (almostFullState\<lparr>error := Some ''Only 1 were added to reach the limit of 20.''\<rparr>)
           [pngFile]"
    by (simp add: handleAddImagesToCanvas_def Let_def showNat_20 na crowdedCanvas_def
        showNat.simps [of "Suc 0"])
  show ?thesis
    using ac 1 2 3 4 by blast
qed

end
